theory Spec2Isabelle
  imports Complex_Main
begin

section \<open>Common types\<close>

text \<open>
  Tensor entries are taken as real numbers: the development follows the arithmetic the
  code writes down, not its rounding. A one-dimensional tensor is the list of its entries.
\<close>

type_synonym vec = "real list"
type_synonym matrix = "real list list"

text \<open>
  The exceptions the two source files can end in. InvalidArgumentError is the shape
  error of TensorFlow.
\<close>

datatype error =
    RuntimeError string
  | AssertionError string
  | AttributeError string
  | NotImplementedError
  | UnboundLocalError string
  | NameError string
  | IndexError
  | ZeroDivisionError
  | InvalidArgumentError

section \<open>PiSSM.py: the loss functions\<close>

subsection \<open>Numbers and tensors\<close>

text \<open>
  The inputs of the loss functions are tensors of finite numbers, of shape
  [batch, time, dimension]: nested lists, rectangular. Inside a loss function a logarithm
  or a quotient can leave the finite numbers (an infinity or a NaN in the code); such an
  entry is \<open>None\<close>, and every operation the loss functions apply to it gives \<open>None\<close> again,
  as the sums, products, differences and square roots of the code give an infinity or
  a NaN again.
\<close>

type_synonym fl = "real option"
type_synonym tensor2 = "real list list"
type_synonym tensor3 = "real list list list"

definition fl_lift2 :: "(real \<Rightarrow> real \<Rightarrow> real) \<Rightarrow> fl \<Rightarrow> fl \<Rightarrow> fl" where
  "fl_lift2 op a b =
     (case a of None \<Rightarrow> None
      | Some u \<Rightarrow> (case b of None \<Rightarrow> None | Some v \<Rightarrow> Some (op u v)))"

definition fl_add :: "fl \<Rightarrow> fl \<Rightarrow> fl" where
  "fl_add = fl_lift2 (+)"

definition fl_sub :: "fl \<Rightarrow> fl \<Rightarrow> fl" where
  "fl_sub = fl_lift2 (-)"

definition fl_mul :: "fl \<Rightarrow> fl \<Rightarrow> fl" where
  "fl_mul = fl_lift2 (*)"

definition fl_neg :: "fl \<Rightarrow> fl" where
  "fl_neg a = (case a of None \<Rightarrow> None | Some u \<Rightarrow> Some (- u))"

text \<open>A quotient by zero is an infinity or a NaN.\<close>

definition fl_div :: "fl \<Rightarrow> fl \<Rightarrow> fl" where
  "fl_div a b =
     (case a of None \<Rightarrow> None
      | Some u \<Rightarrow> (case b of None \<Rightarrow> None
                  | Some v \<Rightarrow> if v = 0 then None else Some (u / v)))"

text \<open>\<^verbatim>\<open>tf.math.log\<close>: minus infinity at zero, NaN below.\<close>

definition fl_log :: "fl \<Rightarrow> fl" where
  "fl_log a = (case a of None \<Rightarrow> None | Some u \<Rightarrow> if 0 < u then Some (ln u) else None)"

definition fl_sqrt :: "fl \<Rightarrow> fl" where
  "fl_sqrt a = (case a of None \<Rightarrow> None | Some u \<Rightarrow> if 0 \<le> u then Some (sqrt u) else None)"

definition fl_sum :: "fl list \<Rightarrow> fl" where
  "fl_sum vs = foldr fl_add vs (Some 0)"

text \<open>A mean is the sum over the count; the mean of no entries is 0/0, a NaN.\<close>

definition fl_mean :: "fl list \<Rightarrow> fl" where
  "fl_mean vs = fl_div (fl_sum vs) (Some (real (length vs)))"

definition map3 :: "('a \<Rightarrow> 'b) \<Rightarrow> 'a list list list \<Rightarrow> 'b list list list" where
  "map3 g t = map (map (map g)) t"

fun sequence :: "(error + 'a) list \<Rightarrow> error + 'a list" where
  "sequence [] = Inr []"
| "sequence (u # us) =
     (case u of
        Inl e \<Rightarrow> Inl e
      | Inr v \<Rightarrow> (case sequence us of Inl e \<Rightarrow> Inl e | Inr vs \<Rightarrow> Inr (v # vs)))"

text \<open>
  Broadcasting along one axis: equal lengths pair up, an axis of length one is repeated,
  anything else is the shape error of TensorFlow.
\<close>

definition broadcast :: "('a \<Rightarrow> 'b \<Rightarrow> error + 'c) \<Rightarrow> 'a list \<Rightarrow> 'b list \<Rightarrow> error + 'c list" where
  "broadcast op us vs =
     (if length us = length vs then sequence (map2 op us vs)
      else if length us = 1 then sequence (map (op (hd us)) vs)
      else if length vs = 1 then sequence (map (\<lambda>u. op u (hd vs)) us)
      else Inl InvalidArgumentError)"

definition elementwise2 ::
  "('a \<Rightarrow> 'b \<Rightarrow> 'c) \<Rightarrow> 'a list list \<Rightarrow> 'b list list \<Rightarrow> error + 'c list list" where
  "elementwise2 op = broadcast (broadcast (\<lambda>a b. Inr (op a b)))"

definition elementwise3 ::
  "('a \<Rightarrow> 'b \<Rightarrow> 'c) \<Rightarrow> 'a list list list \<Rightarrow> 'b list list list \<Rightarrow> error + 'c list list list" where
  "elementwise3 op = broadcast (broadcast (broadcast (\<lambda>a b. Inr (op a b))))"

text \<open>The slices \<^verbatim>\<open>t[..., :d]\<close> and \<^verbatim>\<open>t[..., d:]\<close> of the last axis.\<close>

definition slice_to :: "nat \<Rightarrow> 'a list list list \<Rightarrow> 'a list list list" where
  "slice_to d t = map (map (take d)) t"

definition slice_from :: "nat \<Rightarrow> 'a list list list \<Rightarrow> 'a list list list" where
  "slice_from d t = map (map (drop d)) t"

text \<open>\<^verbatim>\<open>tf.reduce_sum(t, axis=-1)\<close> and \<^verbatim>\<open>tf.reduce_mean(t)\<close> over all entries.\<close>

definition reduce_sum_last :: "fl list list list \<Rightarrow> fl list list" where
  "reduce_sum_last t = map (map fl_sum) t"

definition reduce_mean2 :: "fl list list \<Rightarrow> fl" where
  "reduce_mean2 t = fl_mean (concat t)"

definition reduce_mean3 :: "fl list list list \<Rightarrow> fl" where
  "reduce_mean3 t = fl_mean (concat (concat t))"

text \<open>\<^verbatim>\<open>tf.reduce_mean(t, axis=0)\<close> of a tensor of shape [batch, T]: the mean of each column.\<close>

definition columns :: "'a list list \<Rightarrow> 'a list list" where
  "columns t = (if t = [] then [] else map (\<lambda>j. map (\<lambda>row. row ! j) t) [0..<length (hd t)])"

definition reduce_mean_axis0 :: "fl list list \<Rightarrow> fl list" where
  "reduce_mean_axis0 t = map fl_mean (columns t)"

text \<open>\<^verbatim>\<open>tf.squeeze(t, axis=-1)\<close>: the last axis must have length one.\<close>

definition squeeze_last :: "'a list list list \<Rightarrow> error + 'a list list" where
  "squeeze_last t =
     (if list_all (list_all (\<lambda>v. length v = 1)) t then Inr (map (map hd) t)
      else Inl InvalidArgumentError)"

subsection \<open>The three loss functions\<close>

definition epsilon :: real where
  "epsilon = 1 / 10 ^ 8"

text \<open>The predicted variance after \<^verbatim>\<open>pred_var += 1e-8\<close>: what the code takes the logarithm of and divides by.\<close>

definition shifted_var :: "nat \<Rightarrow> tensor3 \<Rightarrow> tensor3" where
  "shifted_var output_dim pred_mean_var =
     map3 (\<lambda>v. v + epsilon) (slice_from output_dim pred_mean_var)"

text \<open>The first three lines of \<^verbatim>\<open>gaussian_nll\<close>, which \<^verbatim>\<open>reinforce_loss\<close> repeats.\<close>

definition element_wise_nll :: "nat \<Rightarrow> tensor3 \<Rightarrow> tensor3 \<Rightarrow> error + fl list list list" where
  "element_wise_nll output_dim target pred_mean_var =
     (let pred_mean = slice_to output_dim pred_mean_var;
          pred_var = map3 Some (shifted_var output_dim pred_mean_var);
          log_term = map3 (\<lambda>v. fl_add (Some (ln (2 * pi))) (fl_log v)) pred_var
      in case elementwise3 fl_sub (map3 Some target) (map3 Some pred_mean) of
           Inl e \<Rightarrow> Inl e
         | Inr diff \<Rightarrow>
             (case elementwise3 fl_div (map3 (\<lambda>v. fl_mul v v) diff) pred_var of
                Inl e \<Rightarrow> Inl e
              | Inr quot \<Rightarrow>
                  (case elementwise3 fl_add log_term quot of
                     Inl e \<Rightarrow> Inl e
                   | Inr summed \<Rightarrow> Inr (map3 (fl_mul (Some (1 / 2))) summed))))"

definition gaussian_nll :: "nat \<Rightarrow> tensor3 \<Rightarrow> tensor3 \<Rightarrow> error + fl" where
  "gaussian_nll output_dim target pred_mean_var =
     (case element_wise_nll output_dim target pred_mean_var of
        Inl e \<Rightarrow> Inl e
      | Inr element_wise \<Rightarrow>
          (let sample_wise_error = reduce_sum_last element_wise
           in Inr (reduce_mean2 sample_wise_error)))"

definition rmse :: "nat \<Rightarrow> tensor3 \<Rightarrow> tensor3 \<Rightarrow> error + fl" where
  "rmse output_dim target pred_mean_var =
     (let pred_mean = slice_to output_dim pred_mean_var
      in case elementwise3 fl_sub (map3 Some pred_mean) (map3 Some target) of
           Inl e \<Rightarrow> Inl e
         | Inr diff \<Rightarrow> Inr (fl_sqrt (reduce_mean3 (map3 (\<lambda>v. fl_mul v v) diff))))"

text \<open>
  Lines 176 to 184 of \<^verbatim>\<open>reinforce_loss\<close>: the estimator, from the reward, the batch size of
  the prediction and the log-probabilities. \<^verbatim>\<open>tf.stop_gradient\<close> does not change a value.
\<close>

definition reinforce_estimator :: "nat \<Rightarrow> fl list list \<Rightarrow> tensor3 \<Rightarrow> error + fl" where
  "reinforce_estimator batch reward logp_list =
     (let baseline = reduce_mean_axis0 reward;
          baseline = [baseline];
          baseline = concat (replicate batch baseline)
      in case squeeze_last logp_list of
           Inl e \<Rightarrow> Inl e
         | Inr logps \<Rightarrow>
             (case elementwise2 fl_sub reward baseline of
                Inl e \<Rightarrow> Inl e
              | Inr advantage \<Rightarrow>
                  (case elementwise2 fl_mul (map (map fl_neg) advantage)
                          (map (map Some) logps) of
                     Inl e \<Rightarrow> Inl e
                   | Inr reinforce_term \<Rightarrow> Inr (reduce_mean2 reinforce_term))))"

text \<open>
  \<^verbatim>\<open>reinforce_loss\<close>: the reward is minus the per-step negative log-likelihood. The value
  \<^verbatim>\<open>base_loss\<close> of the code is computed and never used.
\<close>

definition reinforce_loss :: "nat \<Rightarrow> tensor3 \<Rightarrow> tensor3 \<Rightarrow> tensor3 \<Rightarrow> error + fl" where
  "reinforce_loss output_dim target pred_mean_var logp_list =
     (case element_wise_nll output_dim target pred_mean_var of
        Inl e \<Rightarrow> Inl e
      | Inr element_wise \<Rightarrow>
          (let sample_wise_error = reduce_sum_last element_wise;
               reward = map (map fl_neg) sample_wise_error
           in reinforce_estimator (length (slice_to output_dim pred_mean_var)) reward logp_list))"

text \<open>
  The formula of the specification for \<^verbatim>\<open>gaussian_nll\<close>, written with sums over the
  indices: the mean over batch and time of the sum over the output dimensions.
\<close>

definition nll_formula :: "nat \<Rightarrow> nat \<Rightarrow> nat \<Rightarrow> tensor3 \<Rightarrow> tensor3 \<Rightarrow> real" where
  "nll_formula B T' d target pred =
     (\<Sum>b<B. \<Sum>t<T'. \<Sum>k<d.
        1 / 2 * (ln (2 * pi) + ln (pred ! b ! t ! (d + k) + epsilon)
                 + (target ! b ! t ! k - pred ! b ! t ! k)\<^sup>2 / (pred ! b ! t ! (d + k) + epsilon)))
     / (real B * real T')"

text \<open>A tensor of shape [B, T, d].\<close>

definition has_shape :: "nat \<Rightarrow> nat \<Rightarrow> nat \<Rightarrow> 'a list list list \<Rightarrow> bool" where
  "has_shape B T' d t =
     (length t = B \<and> list_all (\<lambda>row. length row = T' \<and> list_all (\<lambda>v. length v = d) row) t)"

text \<open>The tensors of shape [B, T] and [B, T, d] with a given entry at every index.\<close>

definition tab2 :: "nat \<Rightarrow> nat \<Rightarrow> (nat \<Rightarrow> nat \<Rightarrow> 'a) \<Rightarrow> 'a list list" where
  "tab2 B T' F = map (\<lambda>b. map (\<lambda>t. F b t) [0..<T']) [0..<B]"

definition tab3 :: "nat \<Rightarrow> nat \<Rightarrow> nat \<Rightarrow> (nat \<Rightarrow> nat \<Rightarrow> nat \<Rightarrow> 'a) \<Rightarrow> 'a list list list" where
  "tab3 B T' d F = map (\<lambda>b. map (\<lambda>t. map (\<lambda>k. F b t k) [0..<d]) [0..<T']) [0..<B]"

text \<open>Applying a function to the result of a call that may have raised.\<close>

definition then_map :: "('a \<Rightarrow> 'b) \<Rightarrow> error + 'a \<Rightarrow> error + 'b" where
  "then_map g u = (case u of Inl e \<Rightarrow> Inl e | Inr v \<Rightarrow> Inr (g v))"

section \<open>PiSSM.py: the constructor\<close>

text \<open>\<^verbatim>\<open>str.lower\<close> on the letters that matter for the comparison: A to Z.\<close>

definition lower_char :: "char \<Rightarrow> char" where
  "lower_char c =
     (let k = (of_char c :: nat) in if 65 \<le> k \<and> k \<le> 90 then char_of (k + 32) else c)"

definition lower :: "string \<Rightarrow> string" where
  "lower s = map lower_char s"

definition quoted :: "string \<Rightarrow> string" where
  "quoted s = [CHR 0x27] @ s @ [CHR 0x27]"

text \<open>The text of the assertion error, with its three quoted names.\<close>

definition invalid_cell_message :: string where
  "invalid_cell_message =
     ''Invalid Cell type, needs tp be '' @ quoted ''rkn'' @ '', '' @ quoted ''lstm''
       @ '' or '' @ quoted ''gru''"

text \<open>
  The transition cells. PiSSMTransitionCell is imported from a module that is not among
  the sources; only the arguments it is built from are kept.
\<close>

datatype cell =
    PiSSMTransitionCell nat nat nat "nat list" bool
  | LSTMCell nat
  | GRUCell nat

datatype out_dim = Scalar nat | Shape "nat list"

definition isscalar :: "out_dim \<Rightarrow> bool" where
  "isscalar od = (case od of Scalar _ \<Rightarrow> True | Shape _ \<Rightarrow> False)"

text \<open>
  The three methods a subclass has to implement, as what they return when the
  constructor calls them. In PiSSM itself each raises NotImplementedError.
\<close>

record 'layer builders =
  build_encoder_hidden :: "error + 'layer list"
  build_decoder_hidden :: "error + 'layer list"
  build_var_decoder_hidden :: "error + 'layer list"

definition abstract_builders :: "'layer builders" where
  "abstract_builders =
     \<lparr> build_encoder_hidden = Inl NotImplementedError,
       build_decoder_hidden = Inl NotImplementedError,
       build_var_decoder_hidden = Inl NotImplementedError \<rparr>"

record 'layer PiSSM =
  obs_shape :: "nat list"
  lod :: nat
  lsd :: nat
  output_dim :: out_dim
  never_invalid :: bool
  ld_output :: bool
  enc_hidden_layers :: "'layer list"
  cell :: cell
  dec_hidden :: "'layer list"
  dec_out_units :: nat
  var_dec_hidden :: "'layer list option"

text \<open>The choice of the cell, lines 45 to 60.\<close>

definition build_transition :: "nat \<Rightarrow> nat \<Rightarrow> nat \<Rightarrow> nat list \<Rightarrow> bool \<Rightarrow> string \<Rightarrow> error + cell" where
  "build_transition lsd' lod' num_basis trans_net_hidden_units never_invalid' cell_type =
     (if lower cell_type = ''gin''
      then Inr (PiSSMTransitionCell lsd' lod' num_basis trans_net_hidden_units never_invalid')
      else if lower cell_type = ''lstm'' then Inr (LSTMCell (2 * lsd'))
      else if lower cell_type = ''gru'' then Inr (GRUCell (2 * lsd'))
      else Inl (AssertionError invalid_cell_message))"

text \<open>
  The constructor, in the order of its statements: the encoder, the cell, the decoder.
  With a scalar output dimension the output layer has that many units and the variance
  decoder is built; otherwise the last entry of the output shape is read,
  \<^verbatim>\<open>self._output_dim[-1]\<close>, an IndexError for an empty shape. The checks that the
  constructors of the Keras layers make on their arguments (a Dense layer of zero
  units, for one) depend on the version of Keras and are not in the model.
\<close>

definition PiSSM_init ::
  "'layer builders \<Rightarrow> nat list \<Rightarrow> nat \<Rightarrow> out_dim \<Rightarrow> nat \<Rightarrow> nat list \<Rightarrow> bool \<Rightarrow> string
     \<Rightarrow> error + 'layer PiSSM" where
  "PiSSM_init sub observation_shape latent_observation_dim output_dim' num_basis
       trans_net_hidden_units never_invalid' cell_type =
     (case build_encoder_hidden sub of
        Inl e \<Rightarrow> Inl e
      | Inr enc \<Rightarrow>
          (case build_transition latent_observation_dim latent_observation_dim num_basis
                  trans_net_hidden_units never_invalid' cell_type of
             Inl e \<Rightarrow> Inl e
           | Inr c \<Rightarrow>
               (case build_decoder_hidden sub of
                  Inl e \<Rightarrow> Inl e
                | Inr dec \<Rightarrow>
                    (case (case output_dim' of
                             Scalar units \<Rightarrow>
                               (case build_var_decoder_hidden sub of
                                  Inl e \<Rightarrow> Inl e
                                | Inr vdec \<Rightarrow> Inr (units, Some vdec))
                           | Shape dims \<Rightarrow>
                               (if dims = [] then Inl IndexError
                                else Inr (last dims, None))) of
                       Inl e \<Rightarrow> Inl e
                     | Inr (units, vdec) \<Rightarrow>
                         Inr \<lparr> obs_shape = observation_shape,
                               lod = latent_observation_dim,
                               lsd = latent_observation_dim,
                               output_dim = output_dim',
                               never_invalid = never_invalid',
                               ld_output = isscalar output_dim',
                               enc_hidden_layers = enc,
                               cell = c,
                               dec_hidden = dec,
                               dec_out_units = units,
                               var_dec_hidden = vdec \<rparr>))))"

section \<open>PiSSM.py: the training loop\<close>

text \<open>
  The network, its gradients, the optimiser and the arithmetic on loss values are
  TensorFlow's: they are the fields of a record here, each as what the call returns. The
  forward pass returns the pair of the predictions and the log-probabilities as one
  value; a gradient has the type of the weights it is a gradient for. A loss value is of
  a type \<open>'l\<close> with a test for NaN. \<open>lr\<close> is the attribute \<^verbatim>\<open>self.lr\<close>, which the constructor
  does not set.
\<close>

record ('w, 'd, 'p, 'l) network =
  forward :: "'w \<Rightarrow> 'd list \<Rightarrow> error + 'p"
  reinforce_loss_of :: "'d list \<Rightarrow> 'p \<Rightarrow> error + 'l"
  gaussian_nll_of :: "'d list \<Rightarrow> 'p \<Rightarrow> error + 'l"
  gradient_dynamic :: "'w \<Rightarrow> 'd list \<Rightarrow> 'd list \<Rightarrow> error + 'w"
  gradient_phi :: "'w \<Rightarrow> 'd list \<Rightarrow> 'd list \<Rightarrow> error + 'w"
  apply_gradients :: "real \<Rightarrow> 'w \<Rightarrow> 'w \<Rightarrow> 'w"
  isnan :: "'l \<Rightarrow> bool"
  plus_loss :: "'l \<Rightarrow> 'l \<Rightarrow> 'l"
  zero_loss :: 'l
  div_loss :: "'l \<Rightarrow> int \<Rightarrow> 'l"
  lr :: "real option"

text \<open>
  The batching loops: \<^verbatim>\<open>range(int(len(data)/batch_size))\<close> slices of \<^verbatim>\<open>batch_size\<close>
  samples. A zero batch size divides by zero; a negative one gives no batch.
\<close>

definition make_batches :: "'d list \<Rightarrow> int \<Rightarrow> error + 'd list list" where
  "make_batches data batch_size =
     (if batch_size = 0 then Inl ZeroDivisionError
      else Inr (map (\<lambda>bid. take (nat batch_size) (drop (bid * nat batch_size) data))
                  [0..<(if 0 < batch_size then length data div nat batch_size else 0)]))"

text \<open>
  The local variables of \<^verbatim>\<open>training\<close> that the loops change. \<open>loss\<close> is a local variable
  of the function, assigned only at the end of the loop body: \<open>None\<close> while unbound.
\<close>

record ('w, 'l) train_state =
  weights :: 'w
  loss :: "'l option"
  loss_show_tr :: 'l
  Training_Loss :: "'l list"

text \<open>
  The validation step, lines 269 to 275. \<^verbatim>\<open>Valid_Ubatch\<close> is neither a local variable
  nor a name of the module: evaluating \<^verbatim>\<open>len(Valid_Ubatch)\<close> raises NameError.
\<close>

definition validation_step :: "nat \<Rightarrow> error + unit" where
  "validation_step i = (if i mod 10 = 0 then Inl (NameError ''Valid_Ubatch'') else Inr ())"

text \<open>
  One pass through the body of the loop over the mini-batches. The result says whether
  the pass ended in \<^verbatim>\<open>break\<close>.
\<close>

definition train_batch ::
  "('w, 'd, 'p, 'l) network \<Rightarrow> int \<Rightarrow> int \<Rightarrow> 'd list list \<Rightarrow> 'd list list \<Rightarrow> nat
     \<Rightarrow> ('w, 'l) train_state \<Rightarrow> error + (bool \<times> ('w, 'l) train_state)" where
  "train_batch N batch_size ratio Ubatch Ybatch i st =
     (if length Ubatch \<le> i then Inl IndexError
      else
        (case forward N (weights st) (Ubatch ! i) of
           Inl e \<Rightarrow> Inl e
         | Inr preds \<Rightarrow>
        (case reinforce_loss_of N (Ybatch ! i) preds of
           Inl e \<Rightarrow> Inl e
         | Inr reinforce_loss' \<Rightarrow>
        (case loss st of
           None \<Rightarrow> Inl (UnboundLocalError ''loss'')
         | Some l \<Rightarrow>
        (let st1 = st\<lparr>loss_show_tr := plus_loss N (loss_show_tr st) l\<rparr> in
         if isnan N reinforce_loss' then Inr (True, st1)
         else
        (case gradient_dynamic N (weights st1) (Ubatch ! i) (Ybatch ! i) of
           Inl e \<Rightarrow> Inl e
         | Inr gradients \<Rightarrow>
        (case lr N of
           None \<Rightarrow> Inl (AttributeError ''lr'')
         | Some rate \<Rightarrow>
        (let w1 = apply_gradients N rate gradients (weights st1) in
        (case forward N w1 (Ubatch ! i) of
           Inl e \<Rightarrow> Inl e
         | Inr preds2 \<Rightarrow>
        (case gaussian_nll_of N (Ybatch ! i) preds2 of
           Inl e \<Rightarrow> Inl e
         | Inr phi_loss \<Rightarrow>
        (if isnan N phi_loss then Inr (True, st1\<lparr>weights := w1\<rparr>)
         else
        (case gradient_phi N w1 (Ubatch ! i) (Ybatch ! i) of
           Inl e \<Rightarrow> Inl e
         | Inr grads_phi \<Rightarrow>
        (let w2 = apply_gradients N rate grads_phi w1 in
        (case validation_step i of
           Inl e \<Rightarrow> Inl e
         | Inr _ \<Rightarrow>
        (let total = plus_loss N phi_loss reinforce_loss';
             st2 = st1\<lparr>weights := w2, loss := Some total\<rparr> in
         if isnan N total then Inr (True, st2)
         else if ratio - 1 = 0 then Inl ZeroDivisionError
         else
           (let shown = (if int i mod (ratio - 1) = 0 \<and> i \<noteq> 0 then zero_loss N else total)
            in Inr (False, st2\<lparr>loss := Some shown,
                               Training_Loss :=
                                 Training_Loss st2 @ [div_loss N shown batch_size]\<rparr>)))))))))))))))))"

fun batch_loop ::
  "('w, 'd, 'p, 'l) network \<Rightarrow> int \<Rightarrow> int \<Rightarrow> 'd list list \<Rightarrow> 'd list list \<Rightarrow> nat list
     \<Rightarrow> ('w, 'l) train_state \<Rightarrow> error + ('w, 'l) train_state" where
  "batch_loop N batch_size ratio Ubatch Ybatch [] st = Inr st"
| "batch_loop N batch_size ratio Ubatch Ybatch (i # is) st =
     (case train_batch N batch_size ratio Ubatch Ybatch i st of
        Inl e \<Rightarrow> Inl e
      | Inr (stop, st') \<Rightarrow>
          if stop then Inr st' else batch_loop N batch_size ratio Ubatch Ybatch is st')"

fun epoch_loop ::
  "('w, 'd, 'p, 'l) network \<Rightarrow> int \<Rightarrow> int \<Rightarrow> 'd list list \<Rightarrow> 'd list list \<Rightarrow> nat
     \<Rightarrow> ('w, 'l) train_state \<Rightarrow> error + ('w, 'l) train_state" where
  "epoch_loop N batch_size ratio Ubatch Ybatch 0 st = Inr st"
| "epoch_loop N batch_size ratio Ubatch Ybatch (Suc k) st =
     (case batch_loop N batch_size ratio Ubatch Ybatch [0..<length Ybatch]
             (st\<lparr>loss_show_tr := zero_loss N\<rparr>) of
        Inl e \<Rightarrow> Inl e
      | Inr st' \<Rightarrow> epoch_loop N batch_size ratio Ubatch Ybatch k st')"

text \<open>
  \<^verbatim>\<open>training\<close> returns the list \<^verbatim>\<open>Training_Loss\<close>. \<open>w0\<close> is the state of the network
  when it is called; \<^verbatim>\<open>range(epochs)\<close> is empty for a negative number of epochs.
\<close>

definition training ::
  "('w, 'd, 'p, 'l) network \<Rightarrow> 'w \<Rightarrow> 'd list \<Rightarrow> 'd list \<Rightarrow> 'd list \<Rightarrow> 'd list \<Rightarrow> int \<Rightarrow> int
     \<Rightarrow> int \<Rightarrow> error + 'l list" where
  "training N w0 Train_Obs Train_Target Valid_Obs Valid_Target epochs batch_size ratio =
     (case make_batches Valid_Target batch_size of
        Inl e \<Rightarrow> Inl e
      | Inr Ybatch_val \<Rightarrow>
     (case make_batches Valid_Obs batch_size of
        Inl e \<Rightarrow> Inl e
      | Inr Ubatch_val \<Rightarrow>
     (case make_batches Train_Target batch_size of
        Inl e \<Rightarrow> Inl e
      | Inr Ybatch \<Rightarrow>
     (case make_batches Train_Obs batch_size of
        Inl e \<Rightarrow> Inl e
      | Inr Ubatch \<Rightarrow>
     (case epoch_loop N batch_size ratio Ubatch Ybatch (nat epochs)
             \<lparr> weights = w0, loss = None, loss_show_tr = zero_loss N, Training_Loss = [] \<rparr> of
        Inl e \<Rightarrow> Inl e
      | Inr st \<Rightarrow> Inr (Training_Loss st))))))"

text \<open>
  A network whose REINFORCE loss is NaN on every mini-batch: loss values are numbers or
  \<open>None\<close> for NaN.
\<close>

definition nan_network :: "(unit, real, unit, real option) network" where
  "nan_network =
     \<lparr> forward = (\<lambda>w b. Inr ()),
       reinforce_loss_of = (\<lambda>target p. Inr None),
       gaussian_nll_of = (\<lambda>target p. Inr (Some 1)),
       gradient_dynamic = (\<lambda>w u v. Inr w),
       gradient_phi = (\<lambda>w u v. Inr w),
       apply_gradients = (\<lambda>rate g w. w),
       isnan = (\<lambda>l. l = None),
       plus_loss = (\<lambda>a b. case a of None \<Rightarrow> None
                          | Some u \<Rightarrow> (case b of None \<Rightarrow> None | Some v \<Rightarrow> Some (u + v))),
       zero_loss = Some 0,
       div_loss = (\<lambda>a k. case a of None \<Rightarrow> None | Some u \<Rightarrow> Some (u / real_of_int k)),
       lr = Some (1 / 1000) \<rparr>"

section \<open>NCLTSysModel.py: the trajectory simulator\<close>

subsection \<open>The torch primitives the simulator calls\<close>

text \<open>
  The global random generator of torch: a position in two sample sequences, one of
  standard normal draws and one of uniform draws from [0, 1). Drawing k numbers reads k
  consecutive samples and advances the position.
\<close>

record rng =
  normal_at :: "nat \<Rightarrow> real"
  uniform_at :: "nat \<Rightarrow> real"
  pos :: nat

definition draw :: "(nat \<Rightarrow> real) \<Rightarrow> nat \<Rightarrow> rng \<Rightarrow> vec \<times> rng" where
  "draw src k g = (map src [pos g ..< pos g + k], g\<lparr>pos := pos g + k\<rparr>)"

definition torch_zeros :: "nat \<Rightarrow> vec" where
  "torch_zeros k = replicate k 0"

definition torch_eye :: "nat \<Rightarrow> matrix" where
  "torch_eye k = map (\<lambda>i. map (\<lambda>j. if i = j then 1 else 0) [0..<k]) [0..<k]"

definition scale_matrix :: "real \<Rightarrow> matrix \<Rightarrow> matrix" where
  "scale_matrix c M = map (map (\<lambda>v. c * v)) M"

text \<open>
  \<^verbatim>\<open>torch.normal(mean, std)\<close> with a tensor mean and a scalar std: one draw per entry of
  the mean, scaled by std and shifted by the mean. torch refuses a negative std.
\<close>

definition torch_normal :: "vec \<Rightarrow> real \<Rightarrow> rng \<Rightarrow> error + (vec \<times> rng)" where
  "torch_normal mean std g =
     (if std < 0 then Inl (RuntimeError ''normal expects std >= 0.0'')
      else (case draw (normal_at g) (length mean) g of
              (z, g') \<Rightarrow> Inr (map2 (\<lambda>mu zi. mu + std * zi) mean z, g')))"

text \<open>\<^verbatim>\<open>torch.rand_like(v)\<close>: uniform draws, as many as v has entries.\<close>

definition torch_rand_like :: "vec \<Rightarrow> rng \<Rightarrow> vec \<times> rng" where
  "torch_rand_like v g = draw (uniform_at g) (length v) g"

definition torch_add :: "vec \<Rightarrow> vec \<Rightarrow> vec" where
  "torch_add a b = map2 (+) a b"

text \<open>
  \<^verbatim>\<open>torch.squeeze\<close> drops axes of length one and keeps every entry, so on the list of
  entries it changes nothing.
\<close>

definition torch_squeeze :: "'a \<Rightarrow> 'a" where
  "torch_squeeze v = v"

subsection \<open>The model object\<close>

text \<open>
  A tensor of shape [k, T] written column by column, as \<^verbatim>\<open>self.x[:, t] = ...\<close> does, is
  held as the list of its T columns. \<^verbatim>\<open>torch.empty\<close> allocates without initialising: a
  column not assigned yet is \<open>None\<close>. The batch tensors of shape [size, k, T] are lists of
  such trajectories, again \<open>None\<close> until assigned.

  The functions \<open>f\<close> and \<open>h\<close> are the caller's; they are taken to return tensors of the
  configured sizes m and n, so the shape checks of torch do not appear.
\<close>

type_synonym trajectory = "vec option list"

record SystemModel =
  f :: "vec \<Rightarrow> vec"
  m :: nat
  q :: real
  delta_t :: real
  Q :: matrix
  h :: "vec \<Rightarrow> vec"
  n :: nat
  r :: real
  R :: matrix
  T :: nat
  m1x_0 :: vec
  m2x_0 :: matrix
  x :: trajectory
  y :: trajectory
  x_prev :: vec
  Input :: "trajectory option list"
  Target :: "trajectory option list"

text \<open>
  The values imported from the module \<^verbatim>\<open>parameters\<close>, which is not among the sources:
  they are arguments here.
\<close>

record parameters =
  p_delta_t :: real
  p_variance :: real
  p_m1x_0 :: vec
  p_m2x_0 :: matrix

definition SystemModel_init ::
  "parameters \<Rightarrow> (vec \<Rightarrow> vec) \<Rightarrow> real \<Rightarrow> (vec \<Rightarrow> vec) \<Rightarrow> real \<Rightarrow> nat \<Rightarrow> nat \<Rightarrow> nat
     \<Rightarrow> SystemModel" where
  "SystemModel_init P f' q' h' r' T' m' n' =
     \<lparr> f = f', m = m', q = q', delta_t = p_delta_t P,
       Q = scale_matrix (q' * q') (torch_eye m'),
       h = h', n = n', r = r',
       R = scale_matrix (r' * r') (torch_eye n'),
       T = T', m1x_0 = p_m1x_0 P, m2x_0 = p_m2x_0 P,
       x = [], y = [], x_prev = [], Input = [], Target = [] \<rparr>"

definition InitSequence :: "SystemModel \<Rightarrow> vec \<Rightarrow> matrix \<Rightarrow> SystemModel" where
  "InitSequence s m1x_0' m2x_0' =
     s\<lparr>m1x_0 := torch_squeeze m1x_0', m2x_0 := torch_squeeze m2x_0'\<rparr>"

subsection \<open>GenerateSequence\<close>

text \<open>One pass through the body of the loop over \<open>t\<close>.\<close>

definition GenerateSequence_step ::
  "SystemModel \<Rightarrow> rng \<Rightarrow> nat \<Rightarrow> error + (SystemModel \<times> rng)" where
  "GenerateSequence_step s g t =
     (case (if q s = 0 then Inr (f s (x_prev s), g)
            else (case torch_normal (torch_zeros (m s)) (q s) g of
                    Inl e \<Rightarrow> Inl e
                  | Inr (eq, g1) \<Rightarrow> Inr (torch_add (f s (x_prev s)) eq, g1))) of
        Inl e \<Rightarrow> Inl e
      | Inr (xt, g1) \<Rightarrow>
          (case torch_normal (torch_zeros (n s)) (r s) g1 of
             Inl e \<Rightarrow> Inl e
           | Inr (er, g2) \<Rightarrow>
               Inr (s\<lparr>x := (x s)[t := Some (torch_squeeze xt)],
                      y := (y s)[t := Some (torch_squeeze (torch_add (h s xt) er))],
                      x_prev := xt\<rparr>, g2)))"

fun GenerateSequence_loop ::
  "SystemModel \<Rightarrow> rng \<Rightarrow> nat list \<Rightarrow> error + (SystemModel \<times> rng)" where
  "GenerateSequence_loop s g [] = Inr (s, g)"
| "GenerateSequence_loop s g (t # ts) =
     (case GenerateSequence_step s g t of
        Inl e \<Rightarrow> Inl e
      | Inr (s', g') \<Rightarrow> GenerateSequence_loop s' g' ts)"

definition GenerateSequence ::
  "SystemModel \<Rightarrow> matrix \<Rightarrow> matrix \<Rightarrow> nat \<Rightarrow> rng \<Rightarrow> error + (SystemModel \<times> rng)" where
  "GenerateSequence s Q_gen R_gen T' g =
     GenerateSequence_loop
       (s\<lparr>x := replicate T' None, y := replicate T' None, x_prev := m1x_0 s\<rparr>) g [0..<T']"

subsection \<open>GenerateBatch\<close>

text \<open>
  The loop over \<open>i\<close> carries the object and the local variable \<^verbatim>\<open>initConditions\<close>.
  \<open>batch_init\<close> is the part of the body before the call of GenerateSequence. The
  argument \<open>variance\<close> is the value of that name in the module \<^verbatim>\<open>parameters\<close>.
\<close>

definition batch_init ::
  "real \<Rightarrow> bool \<Rightarrow> SystemModel \<Rightarrow> vec \<Rightarrow> rng \<Rightarrow> SystemModel \<times> vec \<times> rng" where
  "batch_init variance randomInit s initConditions g =
     (case (if randomInit
            then (case torch_rand_like (m1x_0 s) g of
                    (u, g') \<Rightarrow> (map (\<lambda>v. v * variance) u, g'))
            else (initConditions, g)) of
        (ic, g1) \<Rightarrow> (InitSequence s ic (m2x_0 s), ic, g1))"

definition GenerateBatch_step ::
  "real \<Rightarrow> nat \<Rightarrow> bool \<Rightarrow> SystemModel \<Rightarrow> vec \<Rightarrow> rng \<Rightarrow> nat
     \<Rightarrow> error + (SystemModel \<times> vec \<times> rng)" where
  "GenerateBatch_step variance T' randomInit s initConditions g i =
     (case batch_init variance randomInit s initConditions g of
        (s1, ic, g1) \<Rightarrow>
          (case GenerateSequence s1 (Q s1) (R s1) T' g1 of
             Inl e \<Rightarrow> Inl e
           | Inr (s2, g2) \<Rightarrow>
               Inr (s2\<lparr>Input := (Input s2)[i := Some (y s2)],
                       Target := (Target s2)[i := Some (x s2)]\<rparr>, ic, g2)))"

fun GenerateBatch_loop ::
  "real \<Rightarrow> nat \<Rightarrow> bool \<Rightarrow> SystemModel \<Rightarrow> vec \<Rightarrow> rng \<Rightarrow> nat list
     \<Rightarrow> error + (SystemModel \<times> vec \<times> rng)" where
  "GenerateBatch_loop variance T' randomInit s ic g [] = Inr (s, ic, g)"
| "GenerateBatch_loop variance T' randomInit s ic g (i # is) =
     (case GenerateBatch_step variance T' randomInit s ic g i of
        Inl e \<Rightarrow> Inl e
      | Inr (s', ic', g') \<Rightarrow> GenerateBatch_loop variance T' randomInit s' ic' g' is)"

text \<open>
  GenerateBatch returns \<^verbatim>\<open>self.Input, self.Target\<close>; the result here is the whole object
  after the call, which holds both, and the generator.
\<close>

definition GenerateBatch ::
  "real \<Rightarrow> SystemModel \<Rightarrow> nat \<Rightarrow> nat \<Rightarrow> bool \<Rightarrow> rng \<Rightarrow> error + (SystemModel \<times> rng)" where
  "GenerateBatch variance s size' T' randomInit g =
     (case GenerateBatch_loop variance T' randomInit
             (s\<lparr>Input := replicate size' None, Target := replicate size' None\<rparr>)
             (m1x_0 s) g [0..<size'] of
        Inl e \<Rightarrow> Inl e
      | Inr (s', ic, g') \<Rightarrow> Inr (s', g'))"

subsection \<open>Concrete instances\<close>

text \<open>
  Entry (i, t) of a tensor held as a list of columns, so that a result can be compared
  with a matrix written row by row.
\<close>

definition tensor_rows :: "nat \<Rightarrow> trajectory \<Rightarrow> real option list list" where
  "tensor_rows k cols =
     map (\<lambda>i. map (\<lambda>c. case c of None \<Rightarrow> None | Some v \<Rightarrow> Some (v ! i)) cols) [0..<k]"

definition example_rng :: rng where
  "example_rng = \<lparr> normal_at = (\<lambda>i. 1), uniform_at = (\<lambda>i. 1 / 2), pos = 0 \<rparr>"

text \<open>
  The end-to-end scenario of the specification: m = 2, n = 1, T = 5, q = 0, r = 0, f the
  identity, h the projection onto the first coordinate, initial state [1, 0].
\<close>

definition scenario_parameters :: parameters where
  "scenario_parameters =
     \<lparr> p_delta_t = 1, p_variance = 100, p_m1x_0 = [1, 0], p_m2x_0 = [[0, 0], [0, 0]] \<rparr>"

definition scenario_model :: SystemModel where
  "scenario_model =
     SystemModel_init scenario_parameters (\<lambda>v. v) 0 (\<lambda>v. [v ! 0]) 0 5 2 1"

text \<open>A second instance: f doubles every coordinate, and the observations are noisy.\<close>

definition doubling_model :: SystemModel where
  "doubling_model =
     SystemModel_init scenario_parameters (map (\<lambda>v. 2 * v)) 0 (\<lambda>v. [v ! 0]) 1 2 2 1"

text \<open>A third instance, with noise on the states and on the observations.\<close>

definition noisy_model :: SystemModel where
  "noisy_model =
     SystemModel_init scenario_parameters (map (\<lambda>v. 2 * v)) 1 (\<lambda>v. [v ! 0]) 1 3 2 1"

section \<open>Properties of the simulator\<close>

subsection \<open>GenerateSequence without process noise\<close>

lemma step_q0:
  assumes "q s = 0" "0 \<le> r s"
  shows "\<exists>yv. GenerateSequence_step s g t =
     Inr (s\<lparr>x := (x s)[t := Some (f s (x_prev s))],
            y := (y s)[t := Some yv],
            x_prev := f s (x_prev s)\<rparr>,
          g\<lparr>pos := pos g + n s\<rparr>)"
  using assms
  by (auto simp add: GenerateSequence_step_def torch_normal_def draw_def torch_zeros_def
      torch_squeeze_def)

text \<open>
  The loop invariant: after the passes for \<open>a, ..., a + k - 1\<close> the columns written are
  the iterates of \<open>f\<close> on the state the loop started from, and the others are untouched.
\<close>

lemma loop_q0:
  assumes "q s = 0" "0 \<le> r s"
  shows "\<exists>s' g'. GenerateSequence_loop s g [a..<a + k] = Inr (s', g') \<and>
           length (x s') = length (x s) \<and>
           f s' = f s \<and> m1x_0 s' = m1x_0 s \<and>
           x_prev s' = (f s ^^ k) (x_prev s) \<and>
           (\<forall>t<length (x s). x s' ! t =
              (if a \<le> t \<and> t < a + k then Some ((f s ^^ Suc (t - a)) (x_prev s))
               else x s ! t))"
  using assms
proof (induction k arbitrary: s g a)
  case 0
  then show ?case by auto
next
  case (Suc k)
  from step_q0[OF Suc.prems, of g a] obtain yv where
    st: "GenerateSequence_step s g a =
     Inr (s\<lparr>x := (x s)[a := Some (f s (x_prev s))],
            y := (y s)[a := Some yv],
            x_prev := f s (x_prev s)\<rparr>,
          g\<lparr>pos := pos g + n s\<rparr>)" by blast
  let ?s1 = "s\<lparr>x := (x s)[a := Some (f s (x_prev s))],
            y := (y s)[a := Some yv],
            x_prev := f s (x_prev s)\<rparr>"
  let ?g1 = "g\<lparr>pos := pos g + n s\<rparr>"
  have up: "[a..<a + Suc k] = a # [Suc a..<Suc a + k]"
    by (simp add: upt_conv_Cons)
  have "q ?s1 = 0" "0 \<le> r ?s1" using Suc.prems by simp_all
  from Suc.IH[OF this, of ?g1 "Suc a"]
  obtain s' g' where L: "GenerateSequence_loop ?s1 ?g1 [Suc a..<Suc a + k] = Inr (s', g')"
    and len: "length (x s') = length (x ?s1)"
    and ff: "f s' = f ?s1" and mm: "m1x_0 s' = m1x_0 ?s1"
    and xp: "x_prev s' = (f ?s1 ^^ k) (x_prev ?s1)"
    and cols: "\<forall>t<length (x ?s1). x s' ! t =
              (if Suc a \<le> t \<and> t < Suc a + k
               then Some ((f ?s1 ^^ Suc (t - Suc a)) (x_prev ?s1)) else x ?s1 ! t)"
    by blast
  have "GenerateSequence_loop s g [a..<a + Suc k] = Inr (s', g')"
    by (simp only: up GenerateSequence_loop.simps st L sum.case prod.case)
  moreover have "x_prev s' = (f s ^^ Suc k) (x_prev s)"
    using xp by (simp add: funpow_swap1)
  moreover have "\<forall>t<length (x s). x s' ! t =
              (if a \<le> t \<and> t < a + Suc k then Some ((f s ^^ Suc (t - a)) (x_prev s))
               else x s ! t)"
  proof (intro allI impI)
    fix t assume t: "t < length (x s)"
    show "x s' ! t =
              (if a \<le> t \<and> t < a + Suc k then Some ((f s ^^ Suc (t - a)) (x_prev s))
               else x s ! t)"
    proof (cases "t = a")
      case True
      then show ?thesis using cols t by simp
    next
      case False
      have "Suc a \<le> t \<Longrightarrow> (f s ^^ (t - Suc a)) (f s (x_prev s)) = (f s ^^ (t - a)) (x_prev s)"
        by (metis Suc_diff_Suc Suc_le_lessD funpow_swap1 funpow.simps(2) o_apply)
      then show ?thesis using cols t False by auto
    qed
  qed
  ultimately show ?case using len ff mm by simp
qed

text \<open>
  C1. With process-noise scale q = 0 (and an observation-noise scale r that torch accepts,
  r \<ge> 0), GenerateSequence returns, and column t of the states is f applied t + 1 times to
  the stored initial state m1x_0, for every horizon and every state of the random
  generator: nothing random enters the states.
\<close>

theorem GenerateSequence_zero_process_noise:
  assumes "q s = 0" "0 \<le> r s"
  shows "\<exists>s' g'. GenerateSequence s Q_gen R_gen T' g = Inr (s', g') \<and>
           length (x s') = T' \<and>
           (\<forall>t<T'. x s' ! t = Some ((f s ^^ Suc t) (m1x_0 s)))"
proof -
  let ?s0 = "s\<lparr>x := replicate T' None, y := replicate T' None, x_prev := m1x_0 s\<rparr>"
  have "q ?s0 = 0" "0 \<le> r ?s0" using assms by simp_all
  from loop_q0[OF this, of g 0 T']
  show ?thesis by (auto simp: GenerateSequence_def)
qed

theorem GenerateSequence_zero_process_noise_witness:
  "q doubling_model = 0 \<and> 0 \<le> r doubling_model \<and>
   (\<exists>s' g'. GenerateSequence doubling_model [] [] 2 example_rng = Inr (s', g') \<and>
      length (x s') = 2 \<and> x s' ! 0 = Some [2, 0] \<and> x s' ! 1 = Some [4, 0])"
proof -
  have a: "q doubling_model = 0" and b: "0 \<le> r doubling_model"
    by (simp_all add: doubling_model_def SystemModel_init_def)
  from GenerateSequence_zero_process_noise[OF a b, of "[]" "[]" 2 example_rng]
  obtain s' g' where
    run: "GenerateSequence doubling_model [] [] 2 example_rng = Inr (s', g')"
    and len: "length (x s') = 2"
    and cols: "\<forall>t<2. x s' ! t = Some ((f doubling_model ^^ Suc t) (m1x_0 doubling_model))"
    by blast
  have c0: "x s' ! 0 = Some [2, 0]"
    using cols by (simp add: doubling_model_def SystemModel_init_def scenario_parameters_def)
  have "x s' ! 1 = Some ((f doubling_model ^^ Suc 1) (m1x_0 doubling_model))"
    using cols by simp
  then have c1: "x s' ! 1 = Some [4, 0]"
    by (simp add: doubling_model_def SystemModel_init_def scenario_parameters_def)
  show ?thesis using a b run len c0 c1 by blast
qed

subsection \<open>The end-to-end scenario\<close>

text \<open>
  C2. In the scenario (m = 2, n = 1, T = 5, q = 0, r = 0, f the identity, h the first
  coordinate, initial state [1, 0]) GenerateSequence returns, from every state of the
  random generator, the states [[1,1,1,1,1],[0,0,0,0,0]] and the observations
  [[1,1,1,1,1]]: the state path draws no noise, and the noise drawn on the observation
  path is scaled by r = 0.
\<close>

theorem scenario_exact:
  "\<exists>s' g'. GenerateSequence scenario_model Q_gen R_gen 5 g = Inr (s', g') \<and>
      tensor_rows 2 (x s') = map (map Some) [[1, 1, 1, 1, 1], [0, 0, 0, 0, 0]] \<and>
      tensor_rows 1 (y s') = map (map Some) [[1, 1, 1, 1, 1]]"
proof -
  have up: "[0..<5] = [0, 1, 2, 3, 4]" by (simp add: upt_rec)
  have "GenerateSequence scenario_model Q_gen R_gen 5 g =
     Inr (scenario_model\<lparr>x := replicate 5 (Some [1, 0]), y := replicate 5 (Some [1]),
            x_prev := [1, 0]\<rparr>, g\<lparr>pos := pos g + 5\<rparr>)"
    by (simp add: GenerateSequence_def up GenerateSequence_step_def scenario_model_def
        SystemModel_init_def scenario_parameters_def torch_normal_def draw_def torch_zeros_def
        torch_squeeze_def torch_add_def eval_nat_numeral upt_rec)
  then show ?thesis
    by (simp add: tensor_rows_def eval_nat_numeral upt_rec)
qed

subsection \<open>GenerateSequence and GenerateBatch return\<close>

text \<open>
  With noise scales that torch accepts, a pass of either loop returns, and changes only
  the fields it assigns.
\<close>

lemma step_ok:
  assumes "0 \<le> q s" "0 \<le> r s"
  shows "\<exists>xt yt g'. GenerateSequence_step s g t =
     Inr (s\<lparr>x := (x s)[t := Some xt], y := (y s)[t := Some yt], x_prev := xt\<rparr>, g')"
  using assms
  by (auto simp add: GenerateSequence_step_def torch_normal_def draw_def torch_squeeze_def)

lemma loop_ok:
  assumes "0 \<le> q s" "0 \<le> r s"
  shows "\<exists>xs ys xp g'. GenerateSequence_loop s g ts =
            Inr (s\<lparr>x := xs, y := ys, x_prev := xp\<rparr>, g')"
  using assms
proof (induction ts arbitrary: s g)
  case Nil
  have "s = s\<lparr>x := x s, y := y s, x_prev := x_prev s\<rparr>" by simp
  then show ?case by (metis GenerateSequence_loop.simps(1))
next
  case (Cons t ts)
  from step_ok[OF Cons.prems, of g t] obtain xt yt g1 where
    st: "GenerateSequence_step s g t =
     Inr (s\<lparr>x := (x s)[t := Some xt], y := (y s)[t := Some yt], x_prev := xt\<rparr>, g1)"
    by blast
  let ?s1 = "s\<lparr>x := (x s)[t := Some xt], y := (y s)[t := Some yt], x_prev := xt\<rparr>"
  have "0 \<le> q ?s1" "0 \<le> r ?s1" using Cons.prems by simp_all
  from Cons.IH[OF this, of g1] obtain xs ys xp g' where
    "GenerateSequence_loop ?s1 g1 ts = Inr (?s1\<lparr>x := xs, y := ys, x_prev := xp\<rparr>, g')"
    by blast
  then have "GenerateSequence_loop s g (t # ts) = Inr (s\<lparr>x := xs, y := ys, x_prev := xp\<rparr>, g')"
    by (simp add: st)
  then show ?case by blast
qed

lemma GenerateSequence_ok:
  assumes "0 \<le> q s" "0 \<le> r s"
  shows "\<exists>xs ys xp g'. GenerateSequence s Q_gen R_gen T' g =
            Inr (s\<lparr>x := xs, y := ys, x_prev := xp\<rparr>, g')"
proof -
  let ?s0 = "s\<lparr>x := replicate T' None, y := replicate T' None, x_prev := m1x_0 s\<rparr>"
  have "0 \<le> q ?s0" "0 \<le> r ?s0" using assms by simp_all
  from loop_ok[OF this, of g "[0..<T']"] show ?thesis
    by (auto simp: GenerateSequence_def)
qed

text \<open>One pass of the batch loop: what it leaves in the object and in initConditions.\<close>

lemma batch_step_ok:
  assumes "0 \<le> q s" "0 \<le> r s"
  shows "\<exists>s' g'. GenerateBatch_step variance T' randomInit s ic g i =
            Inr (s', fst (snd (batch_init variance randomInit s ic g)), g') \<and>
          m1x_0 s' = fst (snd (batch_init variance randomInit s ic g)) \<and>
          q s' = q s \<and> r s' = r s"
proof -
  obtain s1 ic1 g1 where bi: "batch_init variance randomInit s ic g = (s1, ic1, g1)"
    by (cases "batch_init variance randomInit s ic g") auto
  then have s1: "s1 = InitSequence s ic1 (m2x_0 s)"
    by (auto simp: batch_init_def split: if_splits prod.splits)
  have "0 \<le> q s1" "0 \<le> r s1" using assms by (simp_all add: s1 InitSequence_def)
  from GenerateSequence_ok[OF this, of "Q s1" "R s1" T' g1] obtain xs ys xp g2 where
    "GenerateSequence s1 (Q s1) (R s1) T' g1 = Inr (s1\<lparr>x := xs, y := ys, x_prev := xp\<rparr>, g2)"
    by blast
  then show ?thesis
    using assms by (simp add: GenerateBatch_step_def bi s1 InitSequence_def torch_squeeze_def)
qed

lemma batch_init_fixed: "fst (snd (batch_init variance False s ic g)) = ic"
  by (simp add: batch_init_def)

lemma batch_init_m1x_0:
  "m1x_0 (fst (batch_init variance randomInit s ic g)) =
     fst (snd (batch_init variance randomInit s ic g))"
  by (simp add: batch_init_def InitSequence_def torch_squeeze_def split: prod.splits)

lemma batch_init_random:
  "fst (snd (batch_init variance True s ic g)) =
     map (\<lambda>v. v * variance) (fst (torch_rand_like (m1x_0 s) g))"
  by (simp add: batch_init_def split: prod.splits)

lemma batch_loop_append:
  "GenerateBatch_loop variance T' randomInit s ic g (is @ js) =
     (case GenerateBatch_loop variance T' randomInit s ic g is of
        Inl e \<Rightarrow> Inl e
      | Inr (s', ic', g') \<Rightarrow> GenerateBatch_loop variance T' randomInit s' ic' g' js)"
  by (induction "is" arbitrary: s ic g) (auto split: sum.splits)

lemma batch_loop_ok:
  assumes "0 \<le> q s" "0 \<le> r s"
  shows "\<exists>s' ic' g'. GenerateBatch_loop variance T' randomInit s ic g is = Inr (s', ic', g') \<and>
           q s' = q s \<and> r s' = r s \<and>
           (\<not> randomInit \<longrightarrow> ic' = ic) \<and>
           (m1x_0 s' = (if is = [] then m1x_0 s else ic'))"
  using assms
proof (induction "is" arbitrary: s ic g)
  case Nil
  then show ?case by simp
next
  case (Cons i "is")
  from batch_step_ok[OF Cons.prems, of variance T' randomInit ic g i] obtain s1 g1 where
    st: "GenerateBatch_step variance T' randomInit s ic g i =
            Inr (s1, fst (snd (batch_init variance randomInit s ic g)), g1)"
    and m1: "m1x_0 s1 = fst (snd (batch_init variance randomInit s ic g))"
    and qr: "q s1 = q s" "r s1 = r s" by blast
  let ?ic1 = "fst (snd (batch_init variance randomInit s ic g))"
  have "0 \<le> q s1" "0 \<le> r s1" using Cons.prems qr by simp_all
  from Cons.IH[OF this, of ?ic1 g1] obtain s' ic' g' where
    L: "GenerateBatch_loop variance T' randomInit s1 ?ic1 g1 is = Inr (s', ic', g')"
    and qr': "q s' = q s1" "r s' = r s1"
    and fx: "\<not> randomInit \<longrightarrow> ic' = ?ic1"
    and mm: "m1x_0 s' = (if is = [] then m1x_0 s1 else ic')" by blast
  have "GenerateBatch_loop variance T' randomInit s ic g (i # is) = Inr (s', ic', g')"
    by (simp add: st L)
  moreover have "\<not> randomInit \<longrightarrow> ic' = ic"
    using fx by (auto simp: batch_init_fixed)
  moreover have "m1x_0 s' = ic'"
  proof (cases "is = []")
    case True
    then have "ic' = ?ic1" "s' = s1" using L by simp_all
    then show ?thesis using m1 by simp
  next
    case False
    then show ?thesis using mm by simp
  qed
  ultimately show ?case using qr qr' by simp
qed

lemma fixed_init_batch:
  assumes "0 \<le> q s" "0 \<le> r s"
  shows "\<exists>s' g'. GenerateBatch variance s size' T' False g = Inr (s', g') \<and>
           m1x_0 s' = m1x_0 s \<and>
           (\<forall>k<size'. \<exists>sk gk.
              GenerateBatch_loop variance T' False
                (s\<lparr>Input := replicate size' None, Target := replicate size' None\<rparr>)
                (m1x_0 s) g [0..<k] = Inr (sk, m1x_0 s, gk) \<and>
              m1x_0 (fst (batch_init variance False sk (m1x_0 s) gk)) = m1x_0 s)"
proof -
  let ?s0 = "s\<lparr>Input := replicate size' None, Target := replicate size' None\<rparr>"
  have qr: "0 \<le> q ?s0" "0 \<le> r ?s0" using assms by simp_all
  from batch_loop_ok[OF qr, of variance T' False "m1x_0 s" g "[0..<size']"]
  obtain s' ic' g' where
    L: "GenerateBatch_loop variance T' False ?s0 (m1x_0 s) g [0..<size'] = Inr (s', ic', g')"
    and ic: "ic' = m1x_0 s"
    and mm: "m1x_0 s' = (if [0..<size'] = [] then m1x_0 ?s0 else ic')" by auto
  have run: "GenerateBatch variance s size' T' False g = Inr (s', g')"
    by (simp add: GenerateBatch_def L)
  have keep: "m1x_0 s' = m1x_0 s" using mm ic by (simp split: if_splits)
  have "\<exists>sk gk. GenerateBatch_loop variance T' False ?s0 (m1x_0 s) g [0..<k] =
           Inr (sk, m1x_0 s, gk) \<and>
         m1x_0 (fst (batch_init variance False sk (m1x_0 s) gk)) = m1x_0 s" for k
  proof -
    from batch_loop_ok[OF qr, of variance T' False "m1x_0 s" g "[0..<k]"]
    obtain sk ick gk where
      "GenerateBatch_loop variance T' False ?s0 (m1x_0 s) g [0..<k] = Inr (sk, ick, gk)"
      and "ick = m1x_0 s" by auto
    then show ?thesis
      by (auto simp: batch_init_m1x_0 batch_init_fixed)
  qed
  then show ?thesis using run keep by blast
qed

subsection \<open>GenerateBatch with a fixed initial state\<close>








subsection \<open>GenerateBatch with random initial states\<close>

text \<open>
  C10. GenerateBatch changes the stored initial state. After a call with
  randomInit = True that generates at least one trajectory (size = k + 1, noise scales
  q, r \<ge> 0), the stored m1x_0 is the random initial state of the last trajectory: the
  uniform draws taken in the last pass of the loop, times variance. A later call uses
  that value: a following GenerateBatch with randomInit = False starts every one of its
  trajectories from it.
\<close>

theorem GenerateBatch_overwrites_m1x_0:
  assumes "0 \<le> q s" "0 \<le> r s"
  shows "\<exists>sk ick gk s' g'.
           GenerateBatch_loop variance T' True
             (s\<lparr>Input := replicate (Suc k) None, Target := replicate (Suc k) None\<rparr>)
             (m1x_0 s) g [0..<k] = Inr (sk, ick, gk) \<and>
           GenerateBatch variance s (Suc k) T' True g = Inr (s', g') \<and>
           m1x_0 s' = map (\<lambda>v. v * variance) (fst (torch_rand_like (m1x_0 sk) gk)) \<and>
           (\<forall>size2 T2 g2. \<exists>s2 g3.
              GenerateBatch variance s' size2 T2 False g2 = Inr (s2, g3) \<and>
              m1x_0 s2 = m1x_0 s' \<and>
              (\<forall>j<size2. \<exists>sj gj.
                 GenerateBatch_loop variance T2 False
                   (s'\<lparr>Input := replicate size2 None, Target := replicate size2 None\<rparr>)
                   (m1x_0 s') g2 [0..<j] = Inr (sj, m1x_0 s', gj) \<and>
                 m1x_0 (fst (batch_init variance False sj (m1x_0 s') gj)) = m1x_0 s'))"
proof -
  let ?s0 = "s\<lparr>Input := replicate (Suc k) None, Target := replicate (Suc k) None\<rparr>"
  have qr: "0 \<le> q ?s0" "0 \<le> r ?s0" using assms by simp_all
  from batch_loop_ok[OF qr, of variance T' True "m1x_0 s" g "[0..<k]"]
  obtain sk ick gk where
    L: "GenerateBatch_loop variance T' True ?s0 (m1x_0 s) g [0..<k] = Inr (sk, ick, gk)"
    and qk: "q sk = q ?s0" "r sk = r ?s0" by blast
  have qrk: "0 \<le> q sk" "0 \<le> r sk" using qk assms by simp_all
  from batch_step_ok[OF qrk, of variance T' True ick gk k] obtain s' g' where
    st: "GenerateBatch_step variance T' True sk ick gk k =
            Inr (s', fst (snd (batch_init variance True sk ick gk)), g')"
    and m1: "m1x_0 s' = fst (snd (batch_init variance True sk ick gk))"
    and q': "q s' = q sk" "r s' = r sk" by blast
  have up: "[0..<Suc k] = [0..<k] @ [k]" by simp
  have "GenerateBatch_loop variance T' True ?s0 (m1x_0 s) g [0..<Suc k] =
          Inr (s', fst (snd (batch_init variance True sk ick gk)), g')"
    by (simp only: up batch_loop_append L st sum.case prod.case GenerateBatch_loop.simps)
  then have run: "GenerateBatch variance s (Suc k) T' True g = Inr (s', g')"
    by (simp only: GenerateBatch_def sum.case prod.case)
  have new: "m1x_0 s' = map (\<lambda>v. v * variance) (fst (torch_rand_like (m1x_0 sk) gk))"
    using m1 by (simp add: batch_init_random)
  have qr': "0 \<le> q s'" "0 \<le> r s'" using q' qrk by simp_all
  have later: "\<forall>size2 T2 g2. \<exists>s2 g3.
              GenerateBatch variance s' size2 T2 False g2 = Inr (s2, g3) \<and>
              m1x_0 s2 = m1x_0 s' \<and>
              (\<forall>j<size2. \<exists>sj gj.
                 GenerateBatch_loop variance T2 False
                   (s'\<lparr>Input := replicate size2 None, Target := replicate size2 None\<rparr>)
                   (m1x_0 s') g2 [0..<j] = Inr (sj, m1x_0 s', gj) \<and>
                 m1x_0 (fst (batch_init variance False sj (m1x_0 s') gj)) = m1x_0 s')"
    using fixed_init_batch[OF qr'] by blast
  show ?thesis using L run new later by blast
qed

theorem GenerateBatch_overwrites_m1x_0_witness:
  "0 \<le> q noisy_model \<and> 0 \<le> r noisy_model \<and>
   (\<exists>s' g'. GenerateBatch 100 noisy_model (Suc 0) 3 True example_rng = Inr (s', g') \<and>
      m1x_0 s' = [50, 50] \<and> m1x_0 noisy_model = [1, 0])"
proof -
  have a: "0 \<le> q noisy_model" and b: "0 \<le> r noisy_model"
    by (simp_all add: noisy_model_def SystemModel_init_def)
  from GenerateBatch_overwrites_m1x_0[OF a b, of 100 3 0 example_rng]
  obtain sk ick gk s' g' where
    L: "GenerateBatch_loop 100 3 True
          (noisy_model\<lparr>Input := replicate (Suc 0) None, Target := replicate (Suc 0) None\<rparr>)
          (m1x_0 noisy_model) example_rng [0..<0] = Inr (sk, ick, gk)"
    and run: "GenerateBatch 100 noisy_model (Suc 0) 3 True example_rng = Inr (s', g')"
    and new: "m1x_0 s' = map (\<lambda>v. v * 100) (fst (torch_rand_like (m1x_0 sk) gk))"
    by blast
  have old: "m1x_0 noisy_model = [1, 0]"
    by (simp add: noisy_model_def SystemModel_init_def scenario_parameters_def)
  from L have "m1x_0 sk = [1, 0]" and "gk = example_rng"
    using old by auto
  then have "m1x_0 s' = [50, 50]"
    using new by (simp add: torch_rand_like_def draw_def example_rng_def)
  then show ?thesis using a b run old by simp
qed

section \<open>Properties of the constructor and of the training loop\<close>

subsection \<open>The cell type\<close>

text \<open>
  C7. A cell type outside gin, lstm and gru is refused with an AssertionError; the names
  in its message are rkn, lstm and gru. For the cell type rkn, with an encoder that
  builds, the constructor raises the error whose message asks for rkn, and the cell type
  gin, which the message does not name, is accepted.
\<close>

theorem rejected_cell_type_message:
  "PiSSM_init (sub\<lparr>build_encoder_hidden := Inr enc\<rparr>) os k od nb hu ni ''rkn'' =
     Inl (AssertionError
            (''Invalid Cell type, needs tp be '' @ quoted ''rkn'' @ '', '' @ quoted ''lstm''
               @ '' or '' @ quoted ''gru'')) \<and>
   build_transition k k nb hu ni ''gin'' = Inr (PiSSMTransitionCell k k nb hu ni)"
  by (simp add: PiSSM_init_def build_transition_def lower_def lower_char_def
      invalid_cell_message_def)

text \<open>
  Which cell types are refused is as the docstring says: every cell type whose lower
  case is not gin, lstm or gru raises the error, and those three build a cell.
\<close>

lemma refused_cell_types:
  assumes "lower ct \<noteq> ''gin''" "lower ct \<noteq> ''lstm''" "lower ct \<noteq> ''gru''"
  shows "PiSSM_init (sub\<lparr>build_encoder_hidden := Inr enc\<rparr>) os k od nb hu ni ct
           = Inl (AssertionError invalid_cell_message)"
  using assms by (simp add: PiSSM_init_def build_transition_def)

lemma accepted_cell_types:
  assumes "lower ct = ''gin'' \<or> lower ct = ''lstm'' \<or> lower ct = ''gru''"
  shows "\<exists>c. build_transition k j nb hu ni ct = Inr c"
  using assms by (auto simp: build_transition_def)

subsection \<open>The first mini-batch\<close>

text \<open>
  C8. One epoch over two mini-batches of one sample each, with a network whose REINFORCE
  loss is NaN: training does not leave the batch loop by \<^verbatim>\<open>break\<close>, it raises the
  UnboundLocalError of line 244, which comes before the first test for NaN.
\<close>

theorem nan_loss_raises:
  "training nan_network () [1, 2] [1, 2] [] [] 1 1 2 = Inl (UnboundLocalError ''loss'')"
  by (simp add: training_def make_batches_def nan_network_def train_batch_def upt_rec)

text \<open>
  The first pass of the batch loop finds \<open>loss\<close> unbound: it ends in an exception, and
  in the UnboundLocalError when the forward pass and the REINFORCE loss return.
\<close>

lemma train_batch_unbound:
  assumes "loss st = None"
  shows "\<exists>e. train_batch N batch_size ratio Ubatch Ybatch i st = Inl e"
  using assms by (simp add: train_batch_def split: sum.splits)

lemma train_batch_unbound_loss:
  assumes "loss st = None" "i < length Ubatch"
    "forward N (weights st) (Ubatch ! i) = Inr p"
    "reinforce_loss_of N (Ybatch ! i) p = Inr l"
  shows "train_batch N batch_size ratio Ubatch Ybatch i st = Inl (UnboundLocalError ''loss'')"
  using assms by (simp add: train_batch_def)

lemma make_batches_first:
  assumes "0 < batch_size" "nat batch_size \<le> length data"
  shows "\<exists>bs. make_batches data batch_size = Inr (take (nat batch_size) data # bs)"
proof -
  have "0 < length data div nat batch_size"
    using assms by (simp add: div_greater_zero_iff)
  then obtain j where j: "length data div nat batch_size = Suc j"
    by (cases "length data div nat batch_size") auto
  have "[0..<Suc j] = 0 # [1..<Suc j]" by (simp add: upt_rec)
  then show ?thesis using assms j by (simp add: make_batches_def)
qed

lemma make_batches_ok:
  assumes "batch_size \<noteq> 0"
  shows "\<exists>bs. make_batches data batch_size = Inr bs"
  using assms by (simp add: make_batches_def)

lemma batch_loop_first_error:
  assumes "train_batch N batch_size ratio Ubatch Ybatch i st = Inl e"
  shows "batch_loop N batch_size ratio Ubatch Ybatch (i # is) st = Inl e"
  using assms by simp

lemma epoch_loop_first_error:
  assumes "batch_loop N batch_size ratio Ubatch Ybatch [0..<length Ybatch]
             (st\<lparr>loss_show_tr := zero_loss N\<rparr>) = Inl e"
  shows "epoch_loop N batch_size ratio Ubatch Ybatch (Suc k) st = Inl e"
  using assms by simp

text \<open>An exception in the first pass of the first epoch is the result of training.\<close>

lemma training_first_error:
  assumes "0 < epochs"
    and "make_batches Valid_Target batch_size = Inr Yv"
    and "make_batches Valid_Obs batch_size = Inr Uv"
    and "make_batches Train_Target batch_size = Inr (Y0 # Ys)"
    and "make_batches Train_Obs batch_size = Inr U"
    and "train_batch N batch_size ratio U (Y0 # Ys) 0
           \<lparr> weights = w0, loss = None, loss_show_tr = zero_loss N, Training_Loss = [] \<rparr> = Inl e"
  shows "training N w0 Train_Obs Train_Target Valid_Obs Valid_Target epochs batch_size ratio
           = Inl e"
proof -
  obtain j where ep: "nat epochs = Suc j"
    using assms(1) by (cases "nat epochs") auto
  let ?st = "\<lparr> weights = w0, loss = None, loss_show_tr = zero_loss N, Training_Loss = [] \<rparr>"
  have st: "?st\<lparr>loss_show_tr := zero_loss N\<rparr> = ?st" by simp
  have up: "[0..<length (Y0 # Ys)] = 0 # [1..<length (Y0 # Ys)]" by (simp add: upt_rec)
  have "batch_loop N batch_size ratio U (Y0 # Ys) [0..<length (Y0 # Ys)]
          (?st\<lparr>loss_show_tr := zero_loss N\<rparr>) = Inl e"
    unfolding up st using assms(6) by (rule batch_loop_first_error)
  then have "epoch_loop N batch_size ratio U (Y0 # Ys) (Suc j) ?st = Inl e"
    by (rule epoch_loop_first_error)
  then show ?thesis
    by (simp add: training_def assms(2-5) ep)
qed

text \<open>
  C9, amended. A call of training with at least one epoch and at least one full
  mini-batch of targets never returns a loss history: it raises in the first pass of
  the batch loop. When the first mini-batch of observations is there and the forward
  pass and the REINFORCE loss on it return, what it raises is the UnboundLocalError for
  \<open>loss\<close>, read in line 244 before any assignment. The validation step, had pass 0
  reached it, raises the NameError for \<open>Valid_Ubatch\<close>.
\<close>

theorem training_never_returns:
  assumes "0 < epochs" "0 < batch_size" "nat batch_size \<le> length Train_Target"
  shows "(\<exists>e. training N w0 Train_Obs Train_Target Valid_Obs Valid_Target epochs batch_size ratio
             = Inl e) \<and>
         (nat batch_size \<le> length Train_Obs \<longrightarrow>
          forward N w0 (take (nat batch_size) Train_Obs) = Inr p \<longrightarrow>
          reinforce_loss_of N (take (nat batch_size) Train_Target) p = Inr l \<longrightarrow>
          training N w0 Train_Obs Train_Target Valid_Obs Valid_Target epochs batch_size ratio
             = Inl (UnboundLocalError ''loss'')) \<and>
         validation_step 0 = Inl (NameError ''Valid_Ubatch'')"
proof -
  have ne: "batch_size \<noteq> 0" using assms by simp
  obtain Yv where yv: "make_batches Valid_Target batch_size = Inr Yv"
    using make_batches_ok[OF ne] by blast
  obtain Uv where uv: "make_batches Valid_Obs batch_size = Inr Uv"
    using make_batches_ok[OF ne] by blast
  obtain U where u: "make_batches Train_Obs batch_size = Inr U"
    using make_batches_ok[OF ne] by blast
  obtain Ys where y: "make_batches Train_Target batch_size =
      Inr (take (nat batch_size) Train_Target # Ys)"
    using make_batches_first[OF assms(2,3)] by blast
  let ?Y = "take (nat batch_size) Train_Target # Ys"
  let ?st = "\<lparr> weights = w0, loss = None, loss_show_tr = zero_loss N, Training_Loss = [] \<rparr>"
  obtain e where tb: "train_batch N batch_size ratio U ?Y 0 ?st = Inl e"
    using train_batch_unbound[of ?st N batch_size ratio U ?Y 0] by auto
  have "training N w0 Train_Obs Train_Target Valid_Obs Valid_Target epochs
      batch_size ratio = Inl e"
    by (rule training_first_error[OF assms(1) yv uv y u tb])
  then have first: "\<exists>e. training N w0 Train_Obs Train_Target Valid_Obs Valid_Target epochs
      batch_size ratio = Inl e" ..
  have second: "training N w0 Train_Obs Train_Target Valid_Obs Valid_Target epochs batch_size ratio
             = Inl (UnboundLocalError ''loss'')"
    if a: "nat batch_size \<le> length Train_Obs"
      and b: "forward N w0 (take (nat batch_size) Train_Obs) = Inr p"
      and c: "reinforce_loss_of N (take (nat batch_size) Train_Target) p = Inr l"
  proof -
    obtain Us where "make_batches Train_Obs batch_size =
        Inr (take (nat batch_size) Train_Obs # Us)"
      using make_batches_first[OF assms(2) a] by blast
    then have U: "U = take (nat batch_size) Train_Obs # Us" using u by simp
    have tb2: "train_batch N batch_size ratio U ?Y 0 ?st = Inl (UnboundLocalError ''loss'')"
      by (rule train_batch_unbound_loss[where p = p and l = l]) (simp_all add: U b c)
    show ?thesis
      by (rule training_first_error[OF assms(1) yv uv y u tb2])
  qed
  have third: "validation_step 0 = Inl (NameError ''Valid_Ubatch'')"
    by (simp add: validation_step_def)
  show ?thesis using first second third by blast
qed

theorem training_never_returns_witness:
  "(0::int) < 1 \<and> nat 1 \<le> length [1, 2 :: real] \<and>
   training nan_network () [1, 2] [1, 2] [] [] 1 1 2 = Inl (UnboundLocalError ''loss'')"
proof -
  have a: "(0::int) < 1" by simp
  have b: "nat 1 \<le> length [1, 2 :: real]" by simp
  have c: "forward nan_network () (take (nat 1) [1, 2]) = Inr ()"
    by (simp add: nan_network_def)
  have d: "reinforce_loss_of nan_network (take (nat 1) [1, 2]) () = Inr None"
    by (simp add: nan_network_def)
  from training_never_returns[OF a a b, where N = nan_network and ?w0.0 = "()"
      and Train_Obs = "[1, 2]" and p = "()" and l = None and Valid_Obs = "[]"
      and Valid_Target = "[]" and ratio = 2]
  show ?thesis using a b c d by simp
qed

text \<open>
  C9 as stated fails when the number of epochs is zero: with two full mini-batches the
  loops do not run and training returns the empty loss history.
\<close>

theorem training_zero_epochs_returns:
  "training nan_network () [1, 2] [1, 2] [] [] 0 1 2 = Inr [] \<and>
   make_batches [1, 2 :: real] 1 = Inr [[1], [2]]"
  by (simp add: training_def make_batches_def upt_rec)

section \<open>Properties of the loss functions\<close>

subsection \<open>Broadcasting\<close>

text \<open>
  Broadcasting does not depend on the order of its two arguments, and a function applied
  to every entry of its result can be applied inside.
\<close>

lemma broadcast_flip:
  "broadcast op us vs = broadcast (\<lambda>b a. op a b) vs us"
proof -
  have "map2 op us vs = map2 (\<lambda>b a. op a b) vs us"
    by (subst zip_commute) (simp add: case_prod_unfold)
  then show ?thesis
    by (auto simp: broadcast_def)
qed

lemma elementwise3_flip:
  "elementwise3 op A B = elementwise3 (\<lambda>b a. op a b) B A"
proof -
  have 1: "(\<lambda>b a. broadcast (\<lambda>u v. Inr (op u v)) a b) = broadcast (\<lambda>v u. Inr (op u v))"
    by (intro ext) (rule broadcast_flip)
  have 2: "(\<lambda>b a. broadcast (broadcast (\<lambda>u v. Inr (op u v))) a b)
      = broadcast (broadcast (\<lambda>v u. Inr (op u v)))"
    by (intro ext) (simp add: broadcast_flip[of "broadcast (\<lambda>u v. Inr (op u v))"] 1)
  show ?thesis
    unfolding elementwise3_def
    by (subst broadcast_flip) (simp add: 2)
qed

lemma then_map_simps [simp]:
  "then_map g (Inl e) = Inl e" "then_map g (Inr v) = Inr (g v)"
  by (simp_all add: then_map_def)

lemma sequence_then_map:
  "then_map (map g) (sequence us) = sequence (map (then_map g) us)"
  by (induction us) (auto simp: then_map_def split: sum.splits)

lemma broadcast_then_map:
  "then_map (map g) (broadcast op us vs) = broadcast (\<lambda>a b. then_map g (op a b)) us vs"
  unfolding broadcast_def
  by (simp add: sequence_then_map case_prod_unfold comp_def)

lemma elementwise3_then_map:
  "then_map (map3 g) (elementwise3 op A B) = elementwise3 (\<lambda>a b. g (op a b)) A B"
proof -
  have 1: "(\<lambda>a b. then_map g (Inr (op a b))) = (\<lambda>a b. Inr (g (op a b)))"
    by (simp add: then_map_def)
  have "then_map (map (map (map g))) (elementwise3 op A B) = elementwise3 (\<lambda>a b. g (op a b)) A B"
    unfolding elementwise3_def
    by (simp add: broadcast_then_map 1)
  then show ?thesis by (simp add: map3_def[abs_def])
qed

lemma slice_to_all:
  assumes "list_all (list_all (\<lambda>v. length v \<le> d)) t"
  shows "slice_to d t = t"
  using assms by (simp add: slice_to_def list_all_iff map_idI)

lemma fl_square_sub: "fl_mul (fl_sub a b) (fl_sub a b) = fl_mul (fl_sub b a) (fl_sub b a)"
  by (cases a; cases b) (simp_all add: fl_mul_def fl_sub_def fl_lift2_def algebra_simps)

lemma rmse_by_entries:
  "rmse d target pred =
     (case elementwise3 (\<lambda>a b. fl_mul (fl_sub a b) (fl_sub a b))
             (map3 Some (slice_to d pred)) (map3 Some target) of
        Inl e \<Rightarrow> Inl e
      | Inr sq \<Rightarrow> Inr (fl_sqrt (reduce_mean3 sq)))"
proof -
  have "rmse d target pred =
     (case then_map (map3 (\<lambda>v. fl_mul v v))
             (elementwise3 fl_sub (map3 Some (slice_to d pred)) (map3 Some target)) of
        Inl e \<Rightarrow> Inl e
      | Inr sq \<Rightarrow> Inr (fl_sqrt (reduce_mean3 sq)))"
    by (simp add: rmse_def then_map_def split: sum.splits)
  then show ?thesis by (simp add: elementwise3_then_map)
qed

text \<open>Unfolding the tensor operations on a concrete tensor.\<close>

lemmas loss_eval =
  slice_to_def slice_from_def map3_def elementwise3_def elementwise2_def broadcast_def
  fl_sub_def fl_mul_def fl_add_def fl_lift2_def fl_div_def fl_neg_def
  reduce_mean3_def reduce_mean2_def reduce_sum_last_def fl_mean_def fl_sum_def

subsection \<open>rmse\<close>

text \<open>
  C5, amended. For tensors a and b whose last axis has at most \<^verbatim>\<open>output_dim\<close> entries,
  so that the slice \<^verbatim>\<open>[..., :output_dim]\<close> keeps all of whichever is passed as the
  prediction, rmse(a, b) and rmse(b, a) are the same result: the same number, the same
  NaN or the same shape error.
\<close>

theorem rmse_symmetric_within_output_dim:
  assumes "list_all (list_all (\<lambda>v. length v \<le> d)) a"
    and "list_all (list_all (\<lambda>v. length v \<le> d)) b"
  shows "rmse d a b = rmse d b a"
proof -
  have "elementwise3 (\<lambda>u v. fl_mul (fl_sub u v) (fl_sub u v)) (map3 Some b) (map3 Some a)
      = elementwise3 (\<lambda>u v. fl_mul (fl_sub u v) (fl_sub u v)) (map3 Some a) (map3 Some b)"
    by (subst elementwise3_flip) (simp add: fl_square_sub)
  then show ?thesis
    by (simp add: rmse_by_entries slice_to_all[OF assms(1)] slice_to_all[OF assms(2)])
qed

theorem rmse_symmetric_within_output_dim_witness:
  "list_all (list_all (\<lambda>v. length v \<le> 1)) [[[3 :: real]]] \<and>
   list_all (list_all (\<lambda>v. length v \<le> 1)) [[[1 :: real], [5]]] \<and>
   rmse 1 [[[3]]] [[[1], [5]]] = rmse 1 [[[1], [5]]] [[[3]]] \<and>
   rmse 1 [[[3]]] [[[1], [5]]] = Inr (Some 2)"
proof -
  have a: "list_all (list_all (\<lambda>v. length v \<le> 1)) [[[3 :: real]]]" by simp
  have b: "list_all (list_all (\<lambda>v. length v \<le> 1)) [[[1 :: real], [5]]]" by simp
  have "rmse 1 [[[3]]] [[[1], [5]]] = Inr (fl_sqrt (Some 4))"
    by (simp add: rmse_def loss_eval)
  moreover have "sqrt 4 = 2" using real_sqrt_abs[of 2] by simp
  ultimately have c: "rmse 1 [[[3]]] [[[1], [5]]] = Inr (Some 2)"
    by (simp add: fl_sqrt_def)
  from rmse_symmetric_within_output_dim[OF a b] show ?thesis using a b c by simp
qed

text \<open>
  C5 as stated fails: rmse slices its second argument only. With \<^verbatim>\<open>output_dim\<close> = 1, a
  target [[[0]]] and a prediction [[[0, 2]]] (mean 0, variance 2) both orders are
  accepted, and the results are 0 and the square root of 2.
\<close>

theorem rmse_not_symmetric:
  "rmse 1 [[[0]]] [[[0, 2]]] = Inr (Some 0) \<and>
   rmse 1 [[[0, 2]]] [[[0]]] = Inr (Some (sqrt 2)) \<and>
   rmse 1 [[[0]]] [[[0, 2]]] \<noteq> rmse 1 [[[0, 2]]] [[[0]]]"
proof -
  have a: "rmse 1 [[[0]]] [[[0, 2]]] = Inr (fl_sqrt (Some 0))"
    by (simp add: rmse_def loss_eval)
  have b: "rmse 1 [[[0, 2]]] [[[0]]] = Inr (fl_sqrt (Some 2))"
    by (simp add: rmse_def loss_eval)
  show ?thesis using a b by (simp add: fl_sqrt_def)
qed

subsection \<open>Arithmetic with non-finite entries\<close>

lemma fl_sum_simps [simp]:
  "fl_sum [] = Some 0" "fl_sum (v # vs) = fl_add v (fl_sum vs)"
  by (simp_all add: fl_sum_def)

lemma fl_add_simps [simp]:
  "fl_add None b = None" "fl_add a None = None" "fl_add (Some u) (Some v) = Some (u + v)"
  by (simp_all add: fl_add_def fl_lift2_def split: option.splits)

lemma fl_sub_simps [simp]:
  "fl_sub None b = None" "fl_sub a None = None" "fl_sub (Some u) (Some v) = Some (u - v)"
  by (simp_all add: fl_sub_def fl_lift2_def split: option.splits)

lemma fl_mul_simps [simp]:
  "fl_mul None b = None" "fl_mul a None = None" "fl_mul (Some u) (Some v) = Some (u * v)"
  by (simp_all add: fl_mul_def fl_lift2_def split: option.splits)

lemma fl_div_simps [simp]:
  "fl_div None b = None" "fl_div a None = None"
  "fl_div (Some u) (Some v) = (if v = 0 then None else Some (u / v))"
  by (simp_all add: fl_div_def split: option.splits)

subsection \<open>The REINFORCE estimator\<close>

text \<open>
  Adding a constant to every entry of a column adds it to the mean of the column, and
  the difference of two entries does not see a constant added to both.
\<close>

lemma fl_sum_shift:
  "fl_sum (map (\<lambda>v. fl_add v (Some c)) vs) = fl_add (fl_sum vs) (Some (c * real (length vs)))"
proof (induction vs)
  case Nil
  show ?case by simp
next
  case (Cons v vs)
  show ?case
    by (cases v; cases "fl_sum vs") (simp_all add: Cons.IH algebra_simps)
qed

lemma fl_mean_shift:
  assumes "vs \<noteq> []"
  shows "fl_mean (map (\<lambda>v. fl_add v (Some c)) vs) = fl_add (fl_mean vs) (Some c)"
  using assms
  by (cases "fl_sum vs") (simp_all add: fl_mean_def fl_sum_shift add_divide_distrib)

lemma columns_map:
  assumes "list_all (\<lambda>row. length row = length (hd t)) t"
  shows "columns (map (map g) t) = map (map g) (columns t)"
proof (cases "t = []")
  case True
  then show ?thesis by (simp add: columns_def)
next
  case False
  have "map (\<lambda>row. map g row ! j) t = map (\<lambda>row. g (row ! j)) t" if "j < length (hd t)" for j
    using assms that by (intro map_cong) (auto simp: list_all_iff)
  then show ?thesis
    using False by (simp add: columns_def hd_map comp_def)
qed

lemma columns_nonempty:
  assumes "col \<in> set (columns t)"
  shows "col \<noteq> []"
  using assms by (auto simp: columns_def split: if_splits)

lemma reduce_mean_axis0_shift:
  assumes "list_all (\<lambda>row. length row = length (hd t)) t"
  shows "reduce_mean_axis0 (map (map (\<lambda>v. fl_add v (Some c))) t)
           = map (\<lambda>v. fl_add v (Some c)) (reduce_mean_axis0 t)"
  by (simp add: reduce_mean_axis0_def columns_map[OF assms] fl_mean_shift columns_nonempty
      cong: map_cong)

lemma broadcast_map:
  "broadcast op (map g us) (map k vs) = broadcast (\<lambda>a b. op (g a) (k b)) us vs"
proof -
  have "map2 op (map g us) (map k vs) = map2 (\<lambda>a b. op (g a) (k b)) us vs"
    by (simp add: zip_map_map case_prod_unfold)
  moreover have "length us = 1 \<Longrightarrow> hd (map g us) = g (hd us)" by (cases us) auto
  moreover have "length vs = 1 \<Longrightarrow> hd (map k vs) = k (hd vs)" by (cases vs) auto
  ultimately show ?thesis
    by (auto simp: broadcast_def comp_def)
qed

lemma elementwise2_map:
  "elementwise2 op (map (map g) A) (map (map k) B) = elementwise2 (\<lambda>a b. op (g a) (k b)) A B"
  unfolding elementwise2_def by (simp add: broadcast_map)

lemma fl_sub_shift: "fl_sub (fl_add a (Some c)) (fl_add b (Some c)) = fl_sub a b"
  by (cases a; cases b) simp_all

lemma tile_map:
  "concat (replicate k [map g v]) = map (map g) (concat (replicate k [v]))"
  by (induction k) simp_all

text \<open>
  C3. The value of the estimator, minus (reward minus baseline) times logp averaged over
  batch and time with the baseline the mean of the reward over the batch at each time
  step, does not change when a constant c is added to every entry of the reward: the
  baseline takes up the same constant. The reward is a tensor of shape [batch, T], that
  is, its rows have one length; entries are real numbers, and an entry that is not
  finite stays so on both sides.
\<close>

theorem reinforce_estimator_shift_invariant:
  assumes "list_all (\<lambda>row. length row = length (hd reward)) reward"
  shows "reinforce_estimator batch (map (map (\<lambda>v. fl_add v (Some c))) reward) logp_list
           = reinforce_estimator batch reward logp_list"
proof -
  let ?sh = "\<lambda>v. fl_add v (Some c)"
  let ?base = "concat (replicate batch [reduce_mean_axis0 reward])"
  have "elementwise2 fl_sub (map (map ?sh) reward)
          (concat (replicate batch [reduce_mean_axis0 (map (map ?sh) reward)]))
        = elementwise2 fl_sub (map (map ?sh) reward) (map (map ?sh) ?base)"
    by (simp only: reduce_mean_axis0_shift[OF assms] tile_map)
  also have "\<dots> = elementwise2 fl_sub reward ?base"
    by (simp only: elementwise2_map fl_sub_shift)
  finally have eq: "elementwise2 fl_sub (map (map ?sh) reward)
          (concat (replicate batch [reduce_mean_axis0 (map (map ?sh) reward)]))
        = elementwise2 fl_sub reward ?base" .
  show ?thesis
    unfolding reinforce_estimator_def Let_def by (simp only: eq)
qed

theorem reinforce_estimator_shift_invariant_witness:
  "list_all (\<lambda>row. length row = length (hd [[Some 1, Some 2], [Some 3, Some (5 :: real)]]))
     [[Some 1, Some 2], [Some 3, Some 5]] \<and>
   reinforce_estimator 2 (map (map (\<lambda>v. fl_add v (Some 10))) [[Some 1, Some 2], [Some 3, Some 5]])
       [[[1], [2]], [[3], [4]]]
     = reinforce_estimator 2 [[Some 1, Some 2], [Some 3, Some 5]] [[[1], [2]], [[3], [4]]] \<and>
   reinforce_estimator 2 [[Some 1, Some 2], [Some 3, Some 5]] [[[1], [2]], [[3], [4]]]
     = Inr (Some (- (5 / 4)))"
proof -
  have a: "list_all (\<lambda>row. length row = length (hd [[Some 1, Some 2], [Some 3, Some (5 :: real)]]))
     [[Some 1, Some 2], [Some 3, Some 5]]" by simp
  have b: "reinforce_estimator 2 [[Some 1, Some 2], [Some 3, Some 5]] [[[1], [2]], [[3], [4]]]
     = Inr (Some (- (5 / 4)))"
    by (simp add: reinforce_estimator_def reduce_mean_axis0_def columns_def squeeze_last_def
        elementwise2_def broadcast_def fl_mean_def fl_neg_def reduce_mean2_def
        eval_nat_numeral upt_rec)
  from reinforce_estimator_shift_invariant[OF a, of 2 10 "[[[1], [2]], [[3], [4]]]"]
  show ?thesis using a b by simp
qed

subsection \<open>Tensors given by their entries\<close>

text \<open>
  A tensor of a known shape is the table of its entries, and slicing, the entrywise
  operations, the sum over the last axis and the mean act on tables entry by entry.
\<close>

lemma has_shape_tab3:
  assumes "has_shape B T' d t"
  shows "t = tab3 B T' d (\<lambda>b j k. t ! b ! j ! k)"
proof -
  have len: "length t = B"
    and rows: "\<And>b. b < B \<Longrightarrow> length (t ! b) = T'"
    and cols: "\<And>b j. b < B \<Longrightarrow> j < T' \<Longrightarrow> length (t ! b ! j) = d"
    using assms by (auto simp: has_shape_def list_all_length)
  show ?thesis
    unfolding tab3_def
    by (rule nth_equalityI, simp add: len,
        rule nth_equalityI, simp add: len rows,
        rule nth_equalityI, simp_all add: len rows cols)
qed

lemma tab3_cong:
  assumes "\<And>b j k. b < B \<Longrightarrow> j < T' \<Longrightarrow> k < d \<Longrightarrow> F b j k = G b j k"
  shows "tab3 B T' d F = tab3 B T' d G"
  using assms by (simp add: tab3_def)

lemma map3_tab3: "map3 g (tab3 B T' d F) = tab3 B T' d (\<lambda>b j k. g (F b j k))"
  by (simp add: map3_def tab3_def comp_def)

lemma list_all_tab3:
  "list_all (list_all (list_all P)) (tab3 B T' d F) = (\<forall>b<B. \<forall>j<T'. \<forall>k<d. P (F b j k))"
  by (auto simp: tab3_def list_all_iff)

lemma slice_to_tab3: "slice_to d (tab3 B T' (2 * d) F) = tab3 B T' d F"
  by (simp add: slice_to_def tab3_def comp_def take_map)

lemma slice_from_tab3: "slice_from d (tab3 B T' (2 * d) F) = tab3 B T' d (\<lambda>b j k. F b j (d + k))"
proof -
  have eq: "map g [d..<2 * d] = map (\<lambda>k. g (d + k)) [0..<d]" for g :: "nat \<Rightarrow> 'a"
    by (rule nth_equalityI) simp_all
  show ?thesis
    by (simp add: slice_from_def tab3_def comp_def drop_map eq)
qed

lemma sequence_Inr: "sequence (map (\<lambda>i. Inr (H i)) vs) = Inr (map H vs)"
  by (induction vs) simp_all

lemma broadcast_tab:
  assumes "\<And>i. i < k \<Longrightarrow> op (F i) (G i) = Inr (H i)"
  shows "broadcast op (map F [0..<k]) (map G [0..<k]) = Inr (map H [0..<k])"
proof -
  have "map2 op (map F [0..<k]) (map G [0..<k]) = map (\<lambda>i. Inr (H i)) [0..<k]"
    using assms by (intro nth_equalityI) simp_all
  then show ?thesis by (simp add: broadcast_def sequence_Inr)
qed

lemma elementwise3_tab3:
  "elementwise3 op (tab3 B T' d F) (tab3 B T' d G) = Inr (tab3 B T' d (\<lambda>b j k. op (F b j k) (G b j k)))"
  unfolding elementwise3_def tab3_def
  by (intro broadcast_tab) simp

lemma fl_sum_Some: "fl_sum (map Some vs) = Some (sum_list vs)"
  by (induction vs) simp_all

lemma sum_list_upt: "sum_list (map g [0..<k]) = (\<Sum>i<k. g i)" for g :: "nat \<Rightarrow> real"
  by (simp add: interv_sum_list_conv_sum_set_nat atLeast0LessThan)

lemma reduce_sum_last_tab3:
  "reduce_sum_last (tab3 B T' d (\<lambda>b j k. Some (F b j k))) = tab2 B T' (\<lambda>b j. Some (\<Sum>k<d. F b j k))"
proof -
  have "fl_sum (map (\<lambda>k. Some (g k)) [0..<d]) = Some (\<Sum>k<d. g k)" for g :: "nat \<Rightarrow> real"
    using fl_sum_Some[of "map g [0..<d]"] by (simp add: comp_def sum_list_upt)
  then show ?thesis
    by (simp add: reduce_sum_last_def tab3_def tab2_def comp_def)
qed

lemma sum_list_concat_rows: "sum_list (concat vss) = sum_list (map sum_list vss)"
  for vss :: "real list list"
  by (induction vss) simp_all

lemma reduce_mean2_tab2:
  assumes "0 < B" "0 < T'"
  shows "reduce_mean2 (tab2 B T' (\<lambda>b j. Some (G b j)))
           = Some ((\<Sum>b<B. \<Sum>j<T'. G b j) / (real B * real T'))"
proof -
  let ?rows = "map (\<lambda>b. map (G b) [0..<T']) [0..<B]"
  have 1: "concat (tab2 B T' (\<lambda>b j. Some (G b j))) = map Some (concat ?rows)"
    by (simp add: tab2_def map_concat comp_def)
  have 2: "sum_list (concat ?rows) = (\<Sum>b<B. \<Sum>j<T'. G b j)"
    by (simp add: sum_list_concat_rows comp_def sum_list_upt)
  have 3: "length (concat ?rows) = B * T'"
    by (simp add: length_concat comp_def sum_list_triv)
  show ?thesis
    using assms by (simp add: reduce_mean2_def fl_mean_def 1 fl_sum_Some 2 3)
qed

subsection \<open>The Gaussian negative log-likelihood\<close>

text \<open>
  With predicted variances above minus epsilon, every entry of the shifted variance is
  positive, and the entrywise negative log-likelihood is finite.
\<close>

lemma fl_log_pos: "0 < u \<Longrightarrow> fl_log (Some u) = Some (ln u)"
  by (simp add: fl_log_def)

lemma epsilon_pos: "0 < epsilon"
  by (simp add: epsilon_def)

lemma element_wise_nll_tab3:
  assumes tg: "has_shape B T' d target" and pr: "has_shape B T' (2 * d) pred"
    and var: "list_all (list_all (list_all (\<lambda>v. - epsilon < v))) (slice_from d pred)"
  shows "element_wise_nll d target pred =
     Inr (tab3 B T' d (\<lambda>b j k.
        Some (1 / 2 * (ln (2 * pi) + ln (pred ! b ! j ! (d + k) + epsilon)
                 + (target ! b ! j ! k - pred ! b ! j ! k)\<^sup>2 / (pred ! b ! j ! (d + k) + epsilon)))))"
proof -
  let ?P = "\<lambda>b j k. pred ! b ! j ! k"
  let ?G = "\<lambda>b j k. target ! b ! j ! k"
  let ?V = "\<lambda>b j k. pred ! b ! j ! (d + k) + epsilon"
  have P: "pred = tab3 B T' (2 * d) ?P" by (rule has_shape_tab3[OF pr])
  have G: "target = tab3 B T' d ?G" by (rule has_shape_tab3[OF tg])
  have mean: "slice_to d pred = tab3 B T' d ?P"
    by (subst P) (rule slice_to_tab3)
  have sl: "slice_from d pred = tab3 B T' d (\<lambda>b j k. ?P b j (d + k))"
    by (subst P) (rule slice_from_tab3)
  have pos: "0 < ?V b j k" if "b < B" "j < T'" "k < d" for b j k
  proof -
    have "- epsilon < pred ! b ! j ! (d + k)"
      using var that unfolding sl list_all_tab3 by blast
    then show ?thesis by linarith
  qed
  have sv: "shifted_var d pred = tab3 B T' d ?V"
    by (simp add: shifted_var_def sl map3_tab3)
  have logt: "map3 (\<lambda>v. fl_add (Some (ln (2 * pi))) (fl_log v)) (map3 Some (shifted_var d pred))
      = tab3 B T' d (\<lambda>b j k. Some (ln (2 * pi) + ln (?V b j k)))"
    unfolding sv map3_tab3 by (rule tab3_cong) (simp add: fl_log_pos pos)
  have diff: "elementwise3 fl_sub (map3 Some target) (map3 Some (slice_to d pred))
      = Inr (tab3 B T' d (\<lambda>b j k. Some (?G b j k - ?P b j k)))"
    by (subst G, subst mean) (simp add: map3_tab3 elementwise3_tab3)
  have quot: "elementwise3 fl_div
        (map3 (\<lambda>v. fl_mul v v) (tab3 B T' d (\<lambda>b j k. Some (?G b j k - ?P b j k))))
        (map3 Some (shifted_var d pred))
      = Inr (tab3 B T' d (\<lambda>b j k. Some ((?G b j k - ?P b j k)\<^sup>2 / ?V b j k)))"
  proof -
    have "tab3 B T' d (\<lambda>b j k. fl_div (fl_mul (Some (?G b j k - ?P b j k))
              (Some (?G b j k - ?P b j k))) (Some (?V b j k)))
        = tab3 B T' d (\<lambda>b j k. Some ((?G b j k - ?P b j k)\<^sup>2 / ?V b j k))"
    proof (rule tab3_cong)
      fix b j k assume "b < B" "j < T'" "k < d"
      then have "?V b j k \<noteq> 0" using pos[of b j k] by simp
      then show "fl_div (fl_mul (Some (?G b j k - ?P b j k)) (Some (?G b j k - ?P b j k)))
            (Some (?V b j k)) = Some ((?G b j k - ?P b j k)\<^sup>2 / ?V b j k)"
        by (simp add: power2_eq_square)
    qed
    then show ?thesis
      by (simp only: sv map3_tab3 elementwise3_tab3)
  qed
  have total: "elementwise3 fl_add
        (tab3 B T' d (\<lambda>b j k. Some (ln (2 * pi) + ln (?V b j k))))
        (tab3 B T' d (\<lambda>b j k. Some ((?G b j k - ?P b j k)\<^sup>2 / ?V b j k)))
      = Inr (tab3 B T' d (\<lambda>b j k.
          Some (ln (2 * pi) + ln (?V b j k) + (?G b j k - ?P b j k)\<^sup>2 / ?V b j k)))"
    by (simp add: elementwise3_tab3)
  show ?thesis
    unfolding element_wise_nll_def Let_def logt diff quot total sum.case
    by (simp add: map3_tab3)
qed

text \<open>
  C4. For a target of shape [B, T, d] and a concatenated mean/variance prediction of
  shape [B, T, 2d] with B, T \<ge> 1 whose predicted variances lie above minus epsilon,
  which holds for every variance that is not negative, as the decoder of the model
  provides them, \<^verbatim>\<open>gaussian_nll\<close> returns the mean over batch and time of the sum over
  the d output dimensions of
  0.5 * (log(2 pi) + log(var + epsilon) + (target - mean)^2 / (var + epsilon)),
  with epsilon = 1e-8 added to the variance before the logarithm and before the
  division, and no entry it divides by is zero.
\<close>

theorem gaussian_nll_formula:
  assumes "0 < B" "0 < T'" "has_shape B T' d target" "has_shape B T' (2 * d) pred"
    and "list_all (list_all (list_all (\<lambda>v. - epsilon < v))) (slice_from d pred)"
  shows "gaussian_nll d target pred = Inr (Some (nll_formula B T' d target pred)) \<and>
         list_all (list_all (list_all (\<lambda>v. v \<noteq> 0))) (shifted_var d pred)"
proof -
  have "gaussian_nll d target pred = Inr (Some (nll_formula B T' d target pred))"
    unfolding gaussian_nll_def element_wise_nll_tab3[OF assms(3,4,5)] sum.case Let_def
      reduce_sum_last_tab3 reduce_mean2_tab2[OF assms(1,2)] nll_formula_def ..
  moreover have "list_all (list_all (list_all (\<lambda>v. v \<noteq> 0))) (shifted_var d pred)"
  proof -
    have sl: "slice_from d pred = tab3 B T' d (\<lambda>b j k. pred ! b ! j ! (d + k))"
      by (subst has_shape_tab3[OF assms(4)]) (rule slice_from_tab3)
    have "- epsilon < pred ! b ! j ! (d + k)" if "b < B" "j < T'" "k < d" for b j k
      using assms(5) that unfolding sl list_all_tab3 by blast
    then have "pred ! b ! j ! (d + k) + epsilon \<noteq> 0" if "b < B" "j < T'" "k < d" for b j k
      using that by fastforce
    then show ?thesis
      by (simp add: shifted_var_def sl map3_tab3 list_all_tab3)
  qed
  ultimately show ?thesis ..
qed

theorem gaussian_nll_formula_witness:
  "has_shape 2 1 2 [[[1 :: real, 2]], [[0, 0]]] \<and>
   has_shape 2 1 (2 * 2) [[[0 :: real, 0, 0, 0]], [[0, 0, 1 - epsilon, 1 - epsilon]]] \<and>
   list_all (list_all (list_all (\<lambda>v. - epsilon < v)))
     (slice_from 2 [[[0, 0, 0, 0]], [[0, 0, 1 - epsilon, 1 - epsilon]]]) \<and>
   gaussian_nll 2 [[[1, 2]], [[0, 0]]] [[[0, 0, 0, 0]], [[0, 0, 1 - epsilon, 1 - epsilon]]]
     = Inr (Some ((1 / 2 * (ln (2 * pi) + ln epsilon + 1 / epsilon)
                  + 1 / 2 * (ln (2 * pi) + ln epsilon + 4 / epsilon)
                  + 1 / 2 * ln (2 * pi) + 1 / 2 * ln (2 * pi)) / 2)) \<and>
   shifted_var 2 [[[0, 0, 0, 0]], [[0, 0, 1 - epsilon, 1 - epsilon]]]
     = [[[epsilon, epsilon]], [[1, 1]]]"
proof -
  let ?tg = "[[[1 :: real, 2]], [[0, 0]]]"
  let ?pr = "[[[0 :: real, 0, 0, 0]], [[0, 0, 1 - epsilon, 1 - epsilon]]]"
  have a: "(0 :: nat) < 2" and a1: "(0 :: nat) < 1" by simp_all
  have b: "has_shape 2 1 2 ?tg" by (simp add: has_shape_def)
  have c: "has_shape 2 1 (2 * 2) ?pr" by (simp add: has_shape_def)
  have d: "list_all (list_all (list_all (\<lambda>v. - epsilon < v))) (slice_from 2 ?pr)"
    using epsilon_pos by (simp add: slice_from_def)
  have e: "nll_formula 2 1 2 ?tg ?pr
      = (1 / 2 * (ln (2 * pi) + ln epsilon + 1 / epsilon)
                  + 1 / 2 * (ln (2 * pi) + ln epsilon + 4 / epsilon)
                  + 1 / 2 * ln (2 * pi) + 1 / 2 * ln (2 * pi)) / 2"
    by (simp add: nll_formula_def eval_nat_numeral lessThan_Suc)
  have g: "shifted_var 2 ?pr = [[[epsilon, epsilon]], [[1, 1]]]"
    by (simp add: shifted_var_def slice_from_def map3_def)
  from gaussian_nll_formula[OF a a1 b c d] have
    "gaussian_nll 2 ?tg ?pr = Inr (Some (nll_formula 2 1 2 ?tg ?pr))" by simp
  then show ?thesis using b c d e g by simp
qed

text \<open>
  The bound on the variances is sharp: at a variance of exactly minus epsilon, which the
  decoder of the model cannot produce, the shifted variance is zero and the result is
  not a finite number.
\<close>

lemma gaussian_nll_zero_divisor:
  "shifted_var 1 [[[0, - epsilon]]] = [[[0]]] \<and>
   \<not> list_all (list_all (list_all (\<lambda>v. v \<noteq> 0))) (shifted_var 1 [[[0, - epsilon]]]) \<and>
   gaussian_nll 1 [[[0]]] [[[0, - epsilon]]] = Inr None"
proof -
  have a: "shifted_var 1 [[[0, - epsilon]]] = [[[0]]]"
    by (simp add: shifted_var_def slice_from_def map3_def)
  have "element_wise_nll 1 [[[0]]] [[[0, - epsilon]]] = Inr [[[None]]]"
    unfolding element_wise_nll_def a Let_def
    by (simp add: loss_eval fl_log_def)
  then have "gaussian_nll 1 [[[0]]] [[[0, - epsilon]]] = Inr None"
    by (simp add: gaussian_nll_def reduce_sum_last_def reduce_mean2_def fl_mean_def)
  then show ?thesis using a by simp
qed

end
